theory Spec2Isabelle
  imports Main "HOL-Library.Monad_Syntax"
begin

section \<open>The media type DSL of goa: data model\<close>

text \<open>
  The source file \<^verbatim>\<open>design/dsl/media_type.go\<close> holds the DSL functions
  \<^verbatim>\<open>MediaType\<close>, \<^verbatim>\<open>Media\<close>, \<^verbatim>\<open>View\<close>, \<^verbatim>\<open>Link\<close> and \<^verbatim>\<open>CollectionOf\<close>.
  They work on pointers to definitions of package \<^verbatim>\<open>design\<close> and on three globals:
  \<^verbatim>\<open>design.Design\<close>, the context stack and the list of reported errors.
  The embedding threads one \<open>state\<close> record through every function. Pointers are
  addresses into stores of that record, so that two holders of one pointer see the
  same cell. A function returns \<open>None\<close> when the Go call does not return: a run-time
  panic (a nil dereference, a write to a nil map) or a recursion without end.
\<close>

type_synonym addr = nat

text \<open>A user closure \<^verbatim>\<open>func()\<close> is named by a handle; the environment runs it.\<close>

type_synonym dsl_func = nat

text \<open>
  Modelled from the spec: the declarations of package \<^verbatim>\<open>design\<close> are not part of
  the source file. The semantic type of an attribute is a scalar, an object of
  attributes, an array of an element or a reference to a media type. An \<open>Object\<close> is
  a Go map, hence a reference into the store of objects, which gives the entries of
  every map in the order in which a \<^verbatim>\<open>range\<close> loop visits them (any order, in Go);
  a map that was never written is empty. The element of an array is a pointer to
  an attribute definition that may be nil.
\<close>

datatype array = ArrayOfElem (ElemType: "addr option")

datatype data_type =
    Primitive string
  | Array array
  | Object addr
  | MediaTypeT addr

text \<open>
  Modelled from the spec: the fields of \<^verbatim>\<open>design.AttributeDefinition\<close> that the
  source file reads or writes. \<open>Type\<close> is an interface value, \<open>None\<close> when nil.
\<close>

record attribute_definition =
  Type :: "data_type option"
  AttrView :: string

text \<open>
  Modelled from the spec: a view has a name, the media type that owns it and an
  attribute definition; a link has a name, the name of the view that renders it and
  the media type that owns it. Both are stored by value in the maps of their owner.
\<close>

record view_definition =
  ViewAttributeDefinition :: addr
  ViewName :: string
  ViewParent :: addr

record link_definition =
  LinkName :: string
  LinkView :: string
  LinkParent :: addr

text \<open>
  The closure kept in a media type definition: a user closure, or the closure that
  \<^verbatim>\<open>CollectionOf\<close> builds around the type name, the element and its own arguments.
\<close>

datatype closure = UserDSL dsl_func | CollectionDSL string addr "dsl_func option list"

text \<open>
  Modelled from the spec: \<^verbatim>\<open>design.MediaTypeDefinition\<close> with its embedded
  \<^verbatim>\<open>UserTypeDefinition\<close> flattened into one record. \<open>Links\<close> and \<open>Views\<close> are Go
  maps that the source tests against nil.
\<close>

record media_type_definition =
  TypeName :: string
  AttributeDefinition :: "addr option"
  DSLFunc :: "closure option"
  Identifier :: string
  Links :: "(string \<rightharpoonup> link_definition) option"
  Views :: "(string \<rightharpoonup> view_definition) option"

text \<open>
  Modelled from the spec: of a response the source file writes the media type only,
  and of the design it uses the registry from identifiers to media types only.
\<close>

record response_definition =
  ResponseName :: string
  ResponseMediaType :: string

record api_definition =
  MediaTypes :: "(string \<rightharpoonup> addr) option"

text \<open>The definition a DSL function finds on top of the context stack.\<close>

datatype dsl_definition =
    MediaTypeDef addr
  | ResponseDef addr
  | AttributeDef addr
  | OtherDef

text \<open>The argument of \<^verbatim>\<open>Media\<close>, an \<^verbatim>\<open>interface{}\<close>.\<close>

datatype go_value =
    MediaTypeValue addr
  | StringValue string
  | IntValue int
  | NilValue

datatype definition_kind = MediaTypeKind | ViewKind | LinkKind

text \<open>One constructor for each message the source file hands to \<^verbatim>\<open>ReportError\<close>.\<close>

datatype diagnostic =
    InvalidIdentifier string string
  | DuplicateDefinition definition_kind string
  | UnsupportedViewTarget
  | UnknownAttribute string
  | UnknownView string
  | InvalidLinkSyntax string
  | InvalidArgument go_value
  | IncompatibleDSL

record state =
  Design :: "api_definition option"
  ctxStack :: "dsl_definition list"
  Errors :: "diagnostic list"
  mediaTypeCount :: int
  attributes :: "addr \<rightharpoonup> attribute_definition"
  objects :: "addr \<Rightarrow> (string \<times> addr) list"
  mediaTypes :: "addr \<rightharpoonup> media_type_definition"
  responses :: "addr \<rightharpoonup> response_definition"
  nextAddr :: addr

text \<open>
  The collaborators outside the repository: Go's \<^verbatim>\<open>mime.ParseMediaType\<close> (media type,
  parameters, error), \<^verbatim>\<open>mime.FormatMediaType\<close>, \<^verbatim>\<open>inflect.Camelize\<close>, and the
  bodies of the user closures.
\<close>

record env =
  ParseMediaType :: "string \<Rightarrow> string \<times> (string \<rightharpoonup> string) \<times> string option"
  FormatMediaType :: "string \<Rightarrow> (string \<rightharpoonup> string) \<Rightarrow> string"
  Camelize :: "string \<Rightarrow> string"
  run :: "dsl_func \<Rightarrow> state \<Rightarrow> state option"

section \<open>Helpers of the DSL package\<close>

definition ReportError :: "diagnostic \<Rightarrow> state \<Rightarrow> state" where
  "ReportError e s = s\<lparr>Errors := Errors s @ [e]\<rparr>"

text \<open>The top of the context stack is its last element, as in the Go slice.\<close>

definition current :: "state \<Rightarrow> dsl_definition option" where
  "current s = (if ctxStack s = [] then None else Some (last (ctxStack s)))"

text \<open>
  Modelled from the spec: the context helpers of the DSL package live in another
  file. Each looks at the current definition and, when asked to, reports the
  misuse of the DSL function.
\<close>

definition topLevelDefinition :: "bool \<Rightarrow> state \<Rightarrow> bool \<times> state" where
  "topLevelDefinition failIfNotTopLevel s =
     (let top = (current s = None)
      in (top, if failIfNotTopLevel \<and> \<not> top then ReportError IncompatibleDSL s else s))"

definition mediaTypeDefinition :: "bool \<Rightarrow> state \<Rightarrow> addr option \<times> state" where
  "mediaTypeDefinition failIfNotMT s =
     (case current s of
        Some (MediaTypeDef m) \<Rightarrow> (Some m, s)
      | _ \<Rightarrow> (None, if failIfNotMT then ReportError IncompatibleDSL s else s))"

definition responseDefinition :: "bool \<Rightarrow> state \<Rightarrow> addr option \<times> state" where
  "responseDefinition failIfNotResponse s =
     (case current s of
        Some (ResponseDef r) \<Rightarrow> (Some r, s)
      | _ \<Rightarrow> (None, if failIfNotResponse then ReportError IncompatibleDSL s else s))"

definition attributeDefinition :: "bool \<Rightarrow> state \<Rightarrow> addr option \<times> state" where
  "attributeDefinition failIfNotAttribute s =
     (case current s of
        Some (AttributeDef a) \<Rightarrow> (Some a, s)
      | _ \<Rightarrow> (None, if failIfNotAttribute then ReportError IncompatibleDSL s else s))"

text \<open>
  Modelled from the spec: \<^verbatim>\<open>executeDSL\<close> runs a closure against a target. It pushes
  the target on the context stack, runs the closure, pops the stack and answers
  whether the closure reported no new error. A nil closure succeeds at once.
\<close>

definition executeDSL ::
  "(state \<Rightarrow> state option) option \<Rightarrow> dsl_definition \<Rightarrow> state \<Rightarrow> (bool \<times> state) option" where
  "executeDSL dsl def s =
     (case dsl of
        None \<Rightarrow> Some (True, s)
      | Some f \<Rightarrow>
          (let initCount = length (Errors s)
           in case f (s\<lparr>ctxStack := ctxStack s @ [def]\<rparr>) of
                None \<Rightarrow> None
              | Some s1 \<Rightarrow>
                  if ctxStack s1 = [] then None
                  else (let s2 = s1\<lparr>ctxStack := butlast (ctxStack s1)\<rparr>
                        in Some (length (Errors s2) \<le> initCount, s2))))"

definition user_closure :: "env \<Rightarrow> dsl_func option \<Rightarrow> (state \<Rightarrow> state option) option" where
  "user_closure env dsl = map_option (run env) dsl"

subsection \<open>Allocation\<close>

text \<open>\<^verbatim>\<open>&T{...}\<close> and \<^verbatim>\<open>make(map...)\<close> take the next unused address.\<close>

definition new_attribute :: "attribute_definition \<Rightarrow> state \<Rightarrow> addr \<times> state" where
  "new_attribute a s =
     (nextAddr s, s\<lparr>attributes := (attributes s)(nextAddr s \<mapsto> a), nextAddr := Suc (nextAddr s)\<rparr>)"

definition new_object :: "(string \<times> addr) list \<Rightarrow> state \<Rightarrow> addr \<times> state" where
  "new_object kvs s =
     (nextAddr s, s\<lparr>objects := (objects s)(nextAddr s := kvs), nextAddr := Suc (nextAddr s)\<rparr>)"

definition new_media_type :: "media_type_definition \<Rightarrow> state \<Rightarrow> addr \<times> state" where
  "new_media_type d s =
     (nextAddr s, s\<lparr>mediaTypes := (mediaTypes s)(nextAddr s \<mapsto> d), nextAddr := Suc (nextAddr s)\<rparr>)"

text \<open>
  Modelled from the spec: \<^verbatim>\<open>design.NewMediaTypeDefinition\<close> builds a definition
  whose root attribute is an empty object and that has neither views nor links.
  It does not run the closure.
\<close>

definition NewMediaTypeDefinition ::
  "string \<Rightarrow> string \<Rightarrow> closure option \<Rightarrow> state \<Rightarrow> addr \<times> state" where
  "NewMediaTypeDefinition name identifier dsl s =
     (let (ob, s1) = new_object [] s;
          (a, s2) = new_attribute \<lparr>Type = Some (Object ob), AttrView = []\<rparr> s1
      in new_media_type
           \<lparr>TypeName = name, AttributeDefinition = Some a, DSLFunc = dsl,
            Identifier = identifier, Links = None, Views = None\<rparr> s2)"

text \<open>Modelled from the spec: \<^verbatim>\<open>InitDesign\<close> creates the design, its registry still nil.\<close>

definition InitDesign :: "state \<Rightarrow> state" where
  "InitDesign s = s\<lparr>Design := Some \<lparr>MediaTypes = None\<rparr>\<rparr>"

text \<open>\<^verbatim>\<open>design.Design.MediaTypes\<close>, read; and \<^verbatim>\<open>design.Design.MediaTypes[id] = mt\<close>.\<close>

definition registry :: "state \<Rightarrow> (string \<rightharpoonup> addr) option" where
  "registry s = (case Design s of None \<Rightarrow> None | Some d \<Rightarrow> MediaTypes d)"

definition registry_lookup :: "state \<Rightarrow> string \<Rightarrow> addr option" where
  "registry_lookup s identifier =
     (case registry s of None \<Rightarrow> None | Some reg \<Rightarrow> reg identifier)"

definition registry_store :: "string \<Rightarrow> addr \<Rightarrow> state \<Rightarrow> state option" where
  "registry_store identifier mt s =
     (case Design s of
        None \<Rightarrow> None
      | Some d \<Rightarrow>
          (case MediaTypes d of
             None \<Rightarrow> None
           | Some reg \<Rightarrow> Some (s\<lparr>Design := Some (d\<lparr>MediaTypes := Some (reg(identifier \<mapsto> mt))\<rparr>)\<rparr>)))"

subsection \<open>Strings\<close>

text \<open>\<^verbatim>\<open>strings.Split\<close> with a separator of one character.\<close>

fun split_on :: "char \<Rightarrow> string \<Rightarrow> string list" where
  "split_on c [] = [[]]"
| "split_on c (x # xs) =
     (if x = c then [] # split_on c xs
      else (case split_on c xs of
              [] \<Rightarrow> [[x]]
            | w # ws \<Rightarrow> (x # w) # ws))"

text \<open>\<^verbatim>\<open>%d\<close> of \<^verbatim>\<open>fmt.Sprintf\<close>.\<close>

fun decimal :: "nat \<Rightarrow> string" where
  "decimal n =
     (if n < 10 then [''0123456789'' ! n]
      else decimal (n div 10) @ [''0123456789'' ! (n mod 10)])"

text \<open>
  \<^verbatim>\<open>mediaTypeCount\<close> is a Go \<^verbatim>\<open>int\<close>, 64 bits wide on the platforms goa is built for:
  an increment past the largest value wraps to the smallest.
\<close>

definition wrap_int64 :: "int \<Rightarrow> int" where
  "wrap_int64 i = (i + 2 ^ 63) mod 2 ^ 64 - 2 ^ 63"

definition format_int :: "int \<Rightarrow> string" where
  "format_int i = (if i < 0 then CHR ''-'' # decimal (nat (- i)) else decimal (nat i))"

section \<open>MediaType\<close>

text \<open>
  Lines 66 to 75: the identifier under which \<^verbatim>\<open>MediaType\<close> looks up and registers.
  The parse result is used also when the parser reported an error.
\<close>

definition canonical_identifier :: "env \<Rightarrow> string \<Rightarrow> string" where
  "canonical_identifier env identifier =
     (let (ident, params, err) = ParseMediaType env identifier;
          ident1 = (if CHR ''/'' \<notin> set ident then ident @ ''/json'' else ident)
      in FormatMediaType env ident1 params)"

text \<open>
  \<^verbatim>\<open>strings.Split\<close> never returns an empty slice (lemma \<open>split_on_not_Nil\<close> below), so
  \<open>last\<close> and \<open>hd\<close> are the elements that lines 77 and 78 index.
\<close>

definition MediaType ::
  "env \<Rightarrow> string \<Rightarrow> dsl_func option \<Rightarrow> state \<Rightarrow> (addr option \<times> state) option" where
  "MediaType env identifier dsl s0 =
     (let s1 = (if Design s0 = None then InitDesign s0 else s0);
          s2 = (case Design s1 of
                  None \<Rightarrow> s1
                | Some d \<Rightarrow>
                    if MediaTypes d = None
                    then s1\<lparr>Design := Some (d\<lparr>MediaTypes := Some Map.empty\<rparr>)\<rparr>
                    else s1)
      in case topLevelDefinition True s2 of
           (False, s3) \<Rightarrow> Some (None, s3)
         | (True, s3) \<Rightarrow>
             (let (ident, params, err) = ParseMediaType env identifier;
                  s4 = (case err of
                          Some e \<Rightarrow> ReportError (InvalidIdentifier ident e) s3
                        | None \<Rightarrow> s3);
                  ident1 = (if CHR ''/'' \<notin> set ident then ident @ ''/json'' else ident);
                  ident2 = FormatMediaType env ident1 params;
                  elems = split_on CHR ''.'' ident2;
                  elems2 = split_on CHR ''/'' (last elems);
                  typeName0 = Camelize env (hd elems2);
                  s5 = (if typeName0 = []
                        then s4\<lparr>mediaTypeCount := wrap_int64 (mediaTypeCount s4 + 1)\<rparr>
                        else s4);
                  typeName = (if typeName0 = []
                              then ''MediaType'' @ format_int (mediaTypeCount s5)
                              else typeName0)
              in case registry_lookup s5 ident2 of
                   Some _ \<Rightarrow>
                     Some (None, ReportError (DuplicateDefinition MediaTypeKind ident2) s5)
                 | None \<Rightarrow>
                     (let (mt, s6) = NewMediaTypeDefinition typeName ident2
                                       (map_option UserDSL dsl) s5
                      in case registry_store ident2 mt s6 of
                           None \<Rightarrow> None
                         | Some s7 \<Rightarrow> Some (Some mt, s7))))"

section \<open>Types\<close>

text \<open>\<^verbatim>\<open>mt.Type\<close>: the type of the root attribute of a media type.\<close>

definition root_type :: "state \<Rightarrow> addr \<Rightarrow> data_type option option" where
  "root_type s mt =
     do { d \<leftarrow> mediaTypes s mt;
          a \<leftarrow> AttributeDefinition d;
          ad \<leftarrow> attributes s a;
          Some (Type ad) }"

text \<open>
  Modelled from the spec: the methods \<^verbatim>\<open>IsObject\<close>, \<^verbatim>\<open>IsArray\<close>, \<^verbatim>\<open>ToObject\<close> and
  \<^verbatim>\<open>ToArray\<close> of \<^verbatim>\<open>design.DataType\<close>. A media type hands each of them to the
  type of its root attribute, so all four follow the references to the first type
  that is not a media type. A call on a nil interface panics, and a chain of
  references that comes back to itself never returns.
\<close>

partial_function (option) underlying :: "state \<Rightarrow> data_type option \<Rightarrow> data_type option" where
  "underlying s t =
     (case t of
        None \<Rightarrow> None
      | Some ty \<Rightarrow>
          (case ty of
             MediaTypeT m \<Rightarrow>
               do { d \<leftarrow> mediaTypes s m;
                    a \<leftarrow> AttributeDefinition d;
                    ad \<leftarrow> attributes s a;
                    underlying s (Type ad) }
           | _ \<Rightarrow> Some ty))"

declare underlying.simps [code]

definition IsObject :: "state \<Rightarrow> data_type option \<Rightarrow> bool option" where
  "IsObject s t =
     map_option (\<lambda>ty. case ty of Object _ \<Rightarrow> True | _ \<Rightarrow> False) (underlying s t)"

definition IsArray :: "state \<Rightarrow> data_type option \<Rightarrow> bool option" where
  "IsArray s t =
     map_option (\<lambda>ty. case ty of Array _ \<Rightarrow> True | _ \<Rightarrow> False) (underlying s t)"

definition ToObject :: "state \<Rightarrow> data_type option \<Rightarrow> addr option option" where
  "ToObject s t =
     map_option (\<lambda>ty. case ty of Object ob \<Rightarrow> Some ob | _ \<Rightarrow> None) (underlying s t)"

definition ToArray :: "state \<Rightarrow> data_type option \<Rightarrow> array option option" where
  "ToArray s t =
     map_option (\<lambda>ty. case ty of Array a \<Rightarrow> Some a | _ \<Rightarrow> None) (underlying s t)"

text \<open>\<^verbatim>\<open>mto[n]\<close> on a map that may be nil, and \<^verbatim>\<open>o[n] = existing\<close>.\<close>

definition object_lookup :: "state \<Rightarrow> addr option \<Rightarrow> string \<Rightarrow> addr option" where
  "object_lookup s mto n =
     (case mto of None \<Rightarrow> None | Some r \<Rightarrow> map_of (objects s r) n)"

definition assign :: "string \<Rightarrow> addr \<Rightarrow> (string \<times> addr) list \<Rightarrow> (string \<times> addr) list" where
  "assign n v kvs =
     (if n \<in> fst ` set kvs
      then map (\<lambda>(k, x). if k = n then (k, v) else (k, x)) kvs
      else kvs @ [(n, v)])"

definition object_store :: "addr \<Rightarrow> string \<Rightarrow> addr \<Rightarrow> state \<Rightarrow> state" where
  "object_store ob n v s = s\<lparr>objects := (objects s)(ob := assign n v (objects s ob))\<rparr>"

text \<open>\<^verbatim>\<open>mt.Views[name]\<close> and \<^verbatim>\<open>mt.Links[name]\<close>, read from maps that may be nil.\<close>

definition view_lookup :: "media_type_definition \<Rightarrow> string \<Rightarrow> view_definition option" where
  "view_lookup d name = (case Views d of None \<Rightarrow> None | Some vs \<Rightarrow> vs name)"

definition link_lookup :: "media_type_definition \<Rightarrow> string \<Rightarrow> link_definition option" where
  "link_lookup d name = (case Links d of None \<Rightarrow> None | Some ls \<Rightarrow> ls name)"

text \<open>The view and the link that a media type of the state has under a name.\<close>

definition view_at :: "state \<Rightarrow> addr \<Rightarrow> string \<Rightarrow> view_definition option" where
  "view_at s mt name =
     (case mediaTypes s mt of None \<Rightarrow> None | Some d \<Rightarrow> view_lookup d name)"

definition link_at :: "state \<Rightarrow> addr \<Rightarrow> string \<Rightarrow> link_definition option" where
  "link_at s mt name =
     (case mediaTypes s mt of None \<Rightarrow> None | Some d \<Rightarrow> link_lookup d name)"

definition update_media_type ::
  "addr \<Rightarrow> (media_type_definition \<Rightarrow> media_type_definition) \<Rightarrow> state \<Rightarrow> state option" where
  "update_media_type mt f s =
     (case mediaTypes s mt of
        None \<Rightarrow> None
      | Some d \<Rightarrow> Some (s\<lparr>mediaTypes := (mediaTypes s)(mt \<mapsto> f d)\<rparr>))"

section \<open>Media\<close>

definition Media :: "go_value \<Rightarrow> state \<Rightarrow> state option" where
  "Media val s0 =
     (case responseDefinition True s0 of
        (None, s) \<Rightarrow> Some s
      | (Some r, s) \<Rightarrow>
          (case val of
             MediaTypeValue m \<Rightarrow>
               do { d \<leftarrow> mediaTypes s m;
                    rd \<leftarrow> responses s r;
                    Some (s\<lparr>responses :=
                              (responses s)(r \<mapsto> rd\<lparr>ResponseMediaType := Identifier d\<rparr>)\<rparr>) }
           | StringValue identifier \<Rightarrow>
               do { rd \<leftarrow> responses s r;
                    Some (s\<lparr>responses :=
                              (responses s)(r \<mapsto> rd\<lparr>ResponseMediaType := identifier\<rparr>)\<rparr>) }
           | _ \<Rightarrow> Some (ReportError (InvalidArgument val) s)))"

section \<open>View\<close>

text \<open>Lines 219 to 225: the loop over the names of the view.\<close>

fun resolve_attributes :: "addr option \<Rightarrow> addr \<Rightarrow> string list \<Rightarrow> state \<Rightarrow> state" where
  "resolve_attributes mto ob [] s = s"
| "resolve_attributes mto ob (n # ns) s =
     (case object_lookup s mto n of
        Some existing \<Rightarrow> resolve_attributes mto ob ns (object_store ob n existing s)
      | None \<Rightarrow>
          resolve_attributes mto ob ns
            (if n \<noteq> ''links'' then ReportError (UnknownAttribute n) s else s))"

text \<open>
  Lines 215 to 218: the object against which the names are resolved, that of the
  media type or, when it has none, that of the element of its array.
\<close>

definition parent_object :: "state \<Rightarrow> addr \<Rightarrow> addr option option" where
  "parent_object s mt =
     do { t \<leftarrow> root_type s mt;
          mto \<leftarrow> ToObject s t;
          if mto = None
          then do { arr \<leftarrow> ToArray s t;
                    a \<leftarrow> arr;
                    elem \<leftarrow> ElemType a;
                    ead \<leftarrow> attributes s elem;
                    ToObject s (Type ead) }
          else Some mto }"

text \<open>Lines 212 to 232, with the attribute definition \<open>at\<close> and the flag \<open>ok\<close>.\<close>

definition view_finish :: "addr \<Rightarrow> string \<Rightarrow> addr \<Rightarrow> bool \<Rightarrow> state \<Rightarrow> state option" where
  "view_finish mt name at ok s =
     (if \<not> ok then Some s
      else
        do { ad \<leftarrow> attributes s at;
             ob \<leftarrow> ToObject s (Type ad);
             s1 \<leftarrow> (case ob of
                      None \<Rightarrow> Some s
                    | Some r \<Rightarrow>
                        do { mto \<leftarrow> parent_object s mt;
                             Some (resolve_attributes mto r (map fst (objects s r)) s) });
             d \<leftarrow> mediaTypes s1 mt;
             vs \<leftarrow> Views d;
             Some (s1\<lparr>mediaTypes := (mediaTypes s1)(mt \<mapsto>
                         d\<lparr>Views := Some (vs(name \<mapsto>
                              \<lparr>ViewAttributeDefinition = at, ViewName = name,
                               ViewParent = mt\<rparr>))\<rparr>)\<rparr>) })"

text \<open>
  Lines 185 to 193 for a name that is not yet a view: the map of views is made when
  it is nil and the attribute definition of the view is allocated.
\<close>

definition view_entry :: "addr \<Rightarrow> state \<Rightarrow> state" where
  "view_entry mt s =
     (case mediaTypes s mt of
        None \<Rightarrow> s
      | Some d \<Rightarrow>
          snd (new_attribute \<lparr>Type = None, AttrView = []\<rparr>
                 (case Views d of
                    None \<Rightarrow> s\<lparr>mediaTypes :=
                                 (mediaTypes s)(mt \<mapsto> d\<lparr>Views := Some Map.empty\<rparr>)\<rparr>
                  | Some vs \<Rightarrow> s)))"

text \<open>Lines 197 to 211: a view without closure on a collection.\<close>

definition view_inherit :: "addr \<Rightarrow> string \<Rightarrow> addr \<Rightarrow> state \<Rightarrow> state option" where
  "view_inherit mt name at s =
     do { t \<leftarrow> root_type s mt;
          isArray \<leftarrow> IsArray s t;
          if isArray
          then do { arr \<leftarrow> ToArray s t;
                    a \<leftarrow> arr;
                    case ElemType a of
                      None \<Rightarrow> view_finish mt name at False s
                    | Some elem \<Rightarrow>
                        do { ead \<leftarrow> attributes s elem;
                             case Type ead of
                               Some (MediaTypeT pa) \<Rightarrow>
                                 do { pd \<leftarrow> mediaTypes s pa;
                                      case view_lookup pd name of
                                        Some v \<Rightarrow>
                                          view_finish mt name (ViewAttributeDefinition v) True s
                                      | None \<Rightarrow> Some (ReportError (UnknownView name) s) }
                             | _ \<Rightarrow> view_finish mt name at False s } }
          else view_finish mt name at False s }"

definition View :: "env \<Rightarrow> string \<Rightarrow> dsl_func option list \<Rightarrow> state \<Rightarrow> state option" where
  "View env name dsl s0 =
     (case mediaTypeDefinition False s0 of
        (Some mt, s) \<Rightarrow>
          do { t \<leftarrow> root_type s mt;
               isObject \<leftarrow> IsObject s t;
               isArray \<leftarrow> (if isObject then Some False else IsArray s t);
               if \<not> isObject \<and> \<not> isArray
               then Some (ReportError UnsupportedViewTarget s)
               else
                 do { d \<leftarrow> mediaTypes s mt;
                      case Views d of
                        None \<Rightarrow>
                          (let s1 = s\<lparr>mediaTypes :=
                                        (mediaTypes s)(mt \<mapsto> d\<lparr>Views := Some Map.empty\<rparr>)\<rparr>;
                               (at, s2) = new_attribute \<lparr>Type = None, AttrView = []\<rparr> s1
                           in if dsl \<noteq> []
                              then do { (ok, s3) \<leftarrow> executeDSL (user_closure env (hd dsl))
                                                      (AttributeDef at) s2;
                                        view_finish mt name at ok s3 }
                              else view_inherit mt name at s2)
                      | Some vs \<Rightarrow>
                          if vs name \<noteq> None
                          then Some (ReportError (DuplicateDefinition ViewKind name) s)
                          else
                            (let (at, s2) = new_attribute \<lparr>Type = None, AttrView = []\<rparr> s
                             in if dsl \<noteq> []
                                then do { (ok, s3) \<leftarrow> executeDSL (user_closure env (hd dsl))
                                                        (AttributeDef at) s2;
                                          view_finish mt name at ok s3 }
                                else view_inherit mt name at s2) } }
      | (None, s) \<Rightarrow>
          (case attributeDefinition True s of
             (Some a, s1) \<Rightarrow>
               do { ad \<leftarrow> attributes s1 a;
                    Some (s1\<lparr>attributes := (attributes s1)(a \<mapsto> ad\<lparr>AttrView := name\<rparr>)\<rparr>) }
           | (None, s1) \<Rightarrow> Some s1))"

section \<open>Link\<close>

definition Link :: "string \<Rightarrow> string list \<Rightarrow> state \<Rightarrow> state option" where
  "Link name view s0 =
     (case mediaTypeDefinition True s0 of
        (Some mt, s) \<Rightarrow>
          do { d \<leftarrow> mediaTypes s mt;
               let links = (case Links d of None \<Rightarrow> Map.empty | Some l \<Rightarrow> l);
               if Links d \<noteq> None \<and> links name \<noteq> None
               then Some (ReportError (DuplicateDefinition LinkKind name) s)
               else
                 (let s1 = (if length view > 1
                            then ReportError (InvalidLinkSyntax name) s else s);
                      link = \<lparr>LinkName = name,
                              LinkView = (if length view > 0 then hd view else ''link''),
                              LinkParent = mt\<rparr>
                  in Some (s1\<lparr>mediaTypes :=
                               (mediaTypes s1)(mt \<mapsto> d\<lparr>Links := Some (links(name \<mapsto> link))\<rparr>)\<rparr>)) }
      | (None, s) \<Rightarrow> Some s)"

section \<open>CollectionOf\<close>

text \<open>
  Lines 309 to 317: the closure of the new definition. \<^verbatim>\<open>ArrayOf(m)\<close> wraps the
  element in a new attribute definition (modelled from the spec: an array of the
  element).
\<close>

definition collection_body ::
  "env \<Rightarrow> string \<Rightarrow> addr \<Rightarrow> dsl_func option list \<Rightarrow> state \<Rightarrow> state option" where
  "collection_body env typeName m dsl s0 =
     (case mediaTypeDefinition True s0 of
        (Some mt, s) \<Rightarrow>
          do { s1 \<leftarrow> update_media_type mt (\<lambda>d. d\<lparr>TypeName := typeName\<rparr>) s;
               let (elem, s2) = new_attribute \<lparr>Type = Some (MediaTypeT m), AttrView = []\<rparr> s1;
               let (root, s3) = new_attribute
                                  \<lparr>Type = Some (Array (ArrayOfElem (Some elem))),
                                   AttrView = []\<rparr> s2;
               s4 \<leftarrow> update_media_type mt (\<lambda>d. d\<lparr>AttributeDefinition := Some root\<rparr>) s3;
               if dsl \<noteq> []
               then do { (ok, s5) \<leftarrow> executeDSL (user_closure env (hd dsl)) (MediaTypeDef mt) s4;
                         Some s5 }
               else Some s4 }
      | (None, s) \<Rightarrow> Some s)"

definition CollectionOf ::
  "env \<Rightarrow> addr \<Rightarrow> dsl_func option list \<Rightarrow> state \<Rightarrow> (addr option \<times> state) option" where
  "CollectionOf env m dsl s =
     do { md \<leftarrow> mediaTypes s m;
          let ident = Identifier md;
          let (mediatype, params, err) = ParseMediaType env ident;
          case err of
            Some e \<Rightarrow> Some (None, ReportError (InvalidIdentifier ident e) s)
          | None \<Rightarrow>
              do { let mediatype1 = (if CHR ''/'' \<notin> set mediatype
                                     then mediatype @ ''/json'' else mediatype);
                   let hasType = (params ''type'' \<noteq> None);
                   let params1 = (if \<not> hasType
                                  then params(''type'' \<mapsto> ''collection'') else params);
                   let ident1 = FormatMediaType env mediatype1 params1;
                   let typeName = TypeName md @ ''Collection'';
                   let (mt, s1) = NewMediaTypeDefinition typeName ident1
                                    (Some (CollectionDSL typeName m dsl)) s;
                   (ok, s2) \<leftarrow> executeDSL (Some (collection_body env typeName m dsl))
                                   (MediaTypeDef mt) s1;
                   s3 \<leftarrow> (if ok then registry_store ident1 mt s2 else Some s2);
                   Some (Some mt, s3) } }"


text \<open>
  A small instance of the collaborators. It agrees with Go's \<^verbatim>\<open>mime\<close> package and
  with \<^verbatim>\<open>inflect.Camelize\<close> on the strings listed; every other string stands for
  a malformed identifier, for which \<^verbatim>\<open>mime.ParseMediaType\<close> returns the empty media
  type, no parameters and an error, and an invalid media type, for which
  \<^verbatim>\<open>mime.FormatMediaType\<close> returns the empty string.
\<close>

definition sample_parse :: "string \<Rightarrow> string \<times> (string \<rightharpoonup> string) \<times> string option" where
  "sample_parse v =
     (if v = ''application/vnd.goa.example.bottle'' \<or> v = ''vnd.goa.example.bottle''
         \<or> v = ''vnd.goa.example.bottle/json''
      then (v, Map.empty, None)
      else if v = ''application/vnd.goa.example.bottle; type=custom''
      then (''application/vnd.goa.example.bottle'', [''type'' \<mapsto> ''custom''], None)
      else ([], Map.empty, Some ''mime: expected slash after first token''))"

definition sample_format :: "string \<Rightarrow> (string \<rightharpoonup> string) \<Rightarrow> string" where
  "sample_format t params =
     (if t = ''application/vnd.goa.example.bottle'' \<or> t = ''vnd.goa.example.bottle/json''
      then (case params ''type'' of None \<Rightarrow> t | Some v \<Rightarrow> t @ ''; type='' @ v)
      else [])"

definition sample_camelize :: "string \<Rightarrow> string" where
  "sample_camelize w = (if w = ''bottle'' then ''Bottle'' else w)"

text \<open>
  A closure for a view, as \<^verbatim>\<open>func() { Attribute("id"); Attribute("vintage") }\<close> leaves
  the attribute definition it runs against: an object with one placeholder for each
  name. Outside an attribute definition it reports the misuse.
\<close>

definition sample_view_closure :: "state \<Rightarrow> state option" where
  "sample_view_closure s =
     (case current s of
        Some (AttributeDef at) \<Rightarrow>
          (let (p1, s1) = new_attribute \<lparr>Type = Some (Primitive ''string''), AttrView = []\<rparr> s;
               (p2, s2) = new_attribute \<lparr>Type = Some (Primitive ''string''), AttrView = []\<rparr> s1;
               (ob, s3) = new_object [(''id'', p1), (''vintage'', p2)] s2
           in case attributes s3 at of
                None \<Rightarrow> None
              | Some ad \<Rightarrow>
                  Some (s3\<lparr>attributes := (attributes s3)(at \<mapsto> ad\<lparr>Type := Some (Object ob)\<rparr>)\<rparr>))
      | _ \<Rightarrow> Some (ReportError IncompatibleDSL s))"

text \<open>The closure with handle 2 is the view closure; every other closure does nothing.\<close>

definition sample_env :: env where
  "sample_env =
     \<lparr>ParseMediaType = sample_parse, FormatMediaType = sample_format,
      Camelize = sample_camelize,
      run = (\<lambda>k s. if k = 2 then sample_view_closure s else Some s)\<rparr>"

section \<open>Sample states\<close>

text \<open>The state of a process that has not yet called the DSL.\<close>

definition initial_state :: state where
  "initial_state =
     \<lparr>Design = None, ctxStack = [], Errors = [], mediaTypeCount = 0,
      attributes = Map.empty, objects = (\<lambda>r. []), mediaTypes = Map.empty,
      responses = Map.empty, nextAddr = 1\<rparr>"

text \<open>
  The state after \<^verbatim>\<open>MediaType("vnd.goa.example.bottle", nil)\<close>: the object of the root
  attribute at address 1, the root attribute at 2, the definition at 3.
\<close>

definition bottle_state :: state where
  "bottle_state =
     \<lparr>Design = Some \<lparr>MediaTypes = Some [''vnd.goa.example.bottle/json'' \<mapsto> 3]\<rparr>,
      ctxStack = [], Errors = [], mediaTypeCount = 0,
      attributes = [2 \<mapsto> \<lparr>Type = Some (Object 1), AttrView = []\<rparr>],
      objects = (\<lambda>r. []),
      mediaTypes = [3 \<mapsto> \<lparr>TypeName = ''Bottle'', AttributeDefinition = Some 2,
                           DSLFunc = None, Identifier = ''vnd.goa.example.bottle/json'',
                           Links = None, Views = None\<rparr>],
      responses = Map.empty, nextAddr = 4\<rparr>"

text \<open>
  A design in the middle of its declaration. The media type \<open>Bottle\<close> (at 3) has the
  attributes \<open>id\<close> (5) and \<open>href\<close> (6), the view \<open>default\<close> (attribute 22 on object
  23) and the link \<open>account\<close>. Attribute 12 on object 7 is what a view closure has
  built: four names with their placeholders. The collection of bottles is at 16, a
  media type with a scalar root at 19 and a response at 20.
\<close>

definition sample_state :: state where
  "sample_state =
     \<lparr>Design = Some \<lparr>MediaTypes = Some [''vnd.goa.example.bottle/json'' \<mapsto> 3]\<rparr>,
      ctxStack = [], Errors = [], mediaTypeCount = 0,
      attributes =
        [2 \<mapsto> \<lparr>Type = Some (Object 1), AttrView = []\<rparr>,
         5 \<mapsto> \<lparr>Type = Some (Primitive ''integer''), AttrView = []\<rparr>,
         6 \<mapsto> \<lparr>Type = Some (Primitive ''string''), AttrView = []\<rparr>,
         8 \<mapsto> \<lparr>Type = Some (Primitive ''string''), AttrView = []\<rparr>,
         9 \<mapsto> \<lparr>Type = Some (Primitive ''string''), AttrView = []\<rparr>,
         10 \<mapsto> \<lparr>Type = Some (Primitive ''string''), AttrView = []\<rparr>,
         11 \<mapsto> \<lparr>Type = Some (Primitive ''string''), AttrView = []\<rparr>,
         12 \<mapsto> \<lparr>Type = Some (Object 7), AttrView = []\<rparr>,
         14 \<mapsto> \<lparr>Type = Some (MediaTypeT 3), AttrView = []\<rparr>,
         15 \<mapsto> \<lparr>Type = Some (Array (ArrayOfElem (Some 14))), AttrView = []\<rparr>,
         18 \<mapsto> \<lparr>Type = Some (Primitive ''string''), AttrView = []\<rparr>,
         22 \<mapsto> \<lparr>Type = Some (Object 23), AttrView = []\<rparr>],
      objects =
        (\<lambda>r. [])
          (1 := [(''id'', 5), (''href'', 6)],
           7 := [(''id'', 8), (''href'', 9), (''links'', 10), (''vintage'', 11)],
           23 := [(''id'', 5), (''href'', 6)]),
      mediaTypes =
        [3 \<mapsto> \<lparr>TypeName = ''Bottle'', AttributeDefinition = Some 2, DSLFunc = None,
                 Identifier = ''vnd.goa.example.bottle/json'',
                 Links = Some [''account'' \<mapsto>
                           \<lparr>LinkName = ''account'', LinkView = ''tiny'', LinkParent = 3\<rparr>],
                 Views = Some [''default'' \<mapsto>
                           \<lparr>ViewAttributeDefinition = 22, ViewName = ''default'',
                            ViewParent = 3\<rparr>]\<rparr>,
         16 \<mapsto> \<lparr>TypeName = ''BottleCollection'', AttributeDefinition = Some 15,
                  DSLFunc = None,
                  Identifier = ''vnd.goa.example.bottle/json; type=collection'',
                  Links = None, Views = None\<rparr>,
         19 \<mapsto> \<lparr>TypeName = ''Custom'', AttributeDefinition = Some 18, DSLFunc = None,
                  Identifier = ''application/vnd.goa.example.bottle; type=custom'',
                  Links = None, Views = None\<rparr>],
      responses = [20 \<mapsto> \<lparr>ResponseName = ''NotFound'', ResponseMediaType = []\<rparr>],
      nextAddr = 24\<rparr>"

text \<open>The same state inside the closure of a definition.\<close>

definition inside :: "dsl_definition \<Rightarrow> state \<Rightarrow> state" where
  "inside def s = s\<lparr>ctxStack := [def]\<rparr>"

section \<open>Properties of MediaType\<close>

lemma split_on_not_Nil: "split_on c xs \<noteq> []"
  by (induction xs) (auto split: list.splits)

text \<open>The first sample state is the one that a first declaration reaches.\<close>

lemma MediaType_first_call:
  "MediaType sample_env ''vnd.goa.example.bottle'' None initial_state = Some (Some 3, bottle_state)"
  by (simp add: MediaType_def initial_state_def bottle_state_def sample_env_def sample_parse_def
      sample_format_def sample_camelize_def InitDesign_def topLevelDefinition_def current_def
      registry_lookup_def registry_def registry_store_def NewMediaTypeDefinition_def
      new_object_def new_attribute_def new_media_type_def Let_def eval_nat_numeral
      fun_upd_idem)

lemma canonical_sample:
  "canonical_identifier sample_env ''vnd.goa.example.bottle/json'' = ''vnd.goa.example.bottle/json''"
  by (simp add: canonical_identifier_def sample_env_def sample_parse_def sample_format_def)

text \<open>
  Claim C1. At top level, when the registry already holds a media type under the
  identifier that \<^verbatim>\<open>MediaType\<close> computes from its argument, the call returns nil and
  reports \<open>DuplicateDefinition\<close> as its last diagnostic; the registry, and with it
  the first definition, and the stores stay as they were.
\<close>

theorem MediaType_duplicate_rejected:
  assumes top: "current s = None"
    and reg: "registry_lookup s (canonical_identifier env identifier) = Some first"
  shows "\<exists>s'. MediaType env identifier dsl s = Some (None, s')
           \<and> Design s' = Design s \<and> mediaTypes s' = mediaTypes s
           \<and> attributes s' = attributes s \<and> objects s' = objects s
           \<and> registry_lookup s' (canonical_identifier env identifier) = Some first
           \<and> Errors s' = Errors s
                @ (case ParseMediaType env identifier of
                     (ident, params, None) \<Rightarrow> []
                   | (ident, params, Some e) \<Rightarrow> [InvalidIdentifier ident e])
                @ [DuplicateDefinition MediaTypeKind (canonical_identifier env identifier)]"
proof -
  obtain ident params err where p: "ParseMediaType env identifier = (ident, params, err)"
    by (cases "ParseMediaType env identifier") auto
  from reg obtain d r where d: "Design s = Some d" "MediaTypes d = Some r"
    by (auto simp: registry_lookup_def registry_def split: option.splits)
  show ?thesis
    using top reg d p
    by (cases err)
       (auto simp: MediaType_def Let_def topLevelDefinition_def canonical_identifier_def
          registry_lookup_def registry_def ReportError_def)
qed

theorem MediaType_duplicate_rejected_witness:
  "current bottle_state = None
   \<and> registry_lookup bottle_state
        (canonical_identifier sample_env ''vnd.goa.example.bottle/json'') = Some 3
   \<and> (\<exists>s'. MediaType sample_env ''vnd.goa.example.bottle/json'' None bottle_state = Some (None, s')
          \<and> Design s' = Design bottle_state \<and> mediaTypes s' = mediaTypes bottle_state
          \<and> registry_lookup s' ''vnd.goa.example.bottle/json'' = Some 3
          \<and> Errors s' = [DuplicateDefinition MediaTypeKind ''vnd.goa.example.bottle/json''])"
proof -
  have top: "current bottle_state = None"
    by (simp add: current_def bottle_state_def)
  have reg: "registry_lookup bottle_state
        (canonical_identifier sample_env ''vnd.goa.example.bottle/json'') = Some 3"
    by (simp add: canonical_sample registry_lookup_def registry_def bottle_state_def)
  have p: "ParseMediaType sample_env ''vnd.goa.example.bottle/json''
             = (''vnd.goa.example.bottle/json'', Map.empty, None)"
    by (simp add: sample_env_def sample_parse_def)
  have e: "Errors bottle_state = []" by (simp add: bottle_state_def)
  from MediaType_duplicate_rejected [OF top reg, of None] top reg
  show ?thesis
    by (auto simp: canonical_sample p e)
qed

lemma canonical_malformed: "canonical_identifier sample_env ''not a type'' = []"
  by (simp add: canonical_identifier_def sample_env_def sample_parse_def sample_format_def)

text \<open>
  Claim C2, amended. At top level, for an identifier that the parser rejects,
  \<^verbatim>\<open>MediaType\<close> records \<open>InvalidIdentifier\<close> and goes on with what the parser returned.
  When the identifier computed from that is not registered yet, the call registers a
  new definition under it and returns the definition; the diagnostic is the only
  one. When it is registered, the call also reports \<open>DuplicateDefinition\<close>, returns
  nil and registers nothing.
\<close>

theorem MediaType_malformed_identifier_goes_on:
  assumes top: "current s = None"
    and parse: "ParseMediaType env identifier = (ident, params, Some e)"
  shows "\<exists>r s'. MediaType env identifier dsl s = Some (r, s')
           \<and> ctxStack s' = ctxStack s
           \<and> (case registry_lookup s (canonical_identifier env identifier) of
                 Some first \<Rightarrow>
                   r = None
                   \<and> Errors s' = Errors s @
                        [InvalidIdentifier ident e,
                         DuplicateDefinition MediaTypeKind (canonical_identifier env identifier)]
                   \<and> registry_lookup s' (canonical_identifier env identifier) = Some first
                   \<and> mediaTypes s' = mediaTypes s
               | None \<Rightarrow>
                   r = Some (nextAddr s + 2)
                   \<and> Errors s' = Errors s @ [InvalidIdentifier ident e]
                   \<and> registry_lookup s' (canonical_identifier env identifier)
                        = Some (nextAddr s + 2)
                   \<and> map_option Identifier (mediaTypes s' (nextAddr s + 2))
                        = Some (canonical_identifier env identifier))"
proof (cases "registry_lookup s (canonical_identifier env identifier)")
  case (Some first)
  from top have stack: "ctxStack s = []" by (simp add: current_def split: if_splits)
  from Some obtain d r where d: "Design s = Some d" "MediaTypes d = Some r"
    by (auto simp: registry_lookup_def registry_def split: option.splits)
  with Some top parse show ?thesis
    by (auto simp: MediaType_def Let_def topLevelDefinition_def canonical_identifier_def
          registry_lookup_def registry_def ReportError_def)
next
  case None
  from top have stack: "ctxStack s = []" by (simp add: current_def split: if_splits)
  show ?thesis
  proof (cases "Design s")
    case nd: None
    with None stack parse show ?thesis
      by (auto simp: MediaType_def Let_def topLevelDefinition_def canonical_identifier_def
          registry_lookup_def registry_def registry_store_def ReportError_def InitDesign_def
          current_def NewMediaTypeDefinition_def new_object_def new_attribute_def
          new_media_type_def)
  next
    case (Some d)
    with None stack parse show ?thesis
      by (cases "MediaTypes d")
         (auto simp: MediaType_def Let_def topLevelDefinition_def canonical_identifier_def
          registry_lookup_def registry_def registry_store_def ReportError_def
          current_def NewMediaTypeDefinition_def new_object_def new_attribute_def
          new_media_type_def)
  qed
qed

theorem MediaType_malformed_identifier_goes_on_witness:
  "current initial_state = None
   \<and> ParseMediaType sample_env ''not a type''
        = ([], Map.empty, Some ''mime: expected slash after first token'')
   \<and> (\<exists>s1. MediaType sample_env ''not a type'' None initial_state = Some (Some 3, s1)
          \<and> Errors s1 = [InvalidIdentifier [] ''mime: expected slash after first token'']
          \<and> registry_lookup s1 [] = Some 3
          \<and> map_option Identifier (mediaTypes s1 3) = Some []
          \<and> current s1 = None
          \<and> (\<exists>s2. MediaType sample_env ''not a type'' None s1 = Some (None, s2)
                 \<and> Errors s2 =
                      [InvalidIdentifier [] ''mime: expected slash after first token'',
                       InvalidIdentifier [] ''mime: expected slash after first token'',
                       DuplicateDefinition MediaTypeKind []]
                 \<and> mediaTypes s2 = mediaTypes s1))"
proof -
  have top: "current initial_state = None"
    by (simp add: current_def initial_state_def)
  have parse: "ParseMediaType sample_env ''not a type''
        = ([], Map.empty, Some ''mime: expected slash after first token'')"
    by (simp add: sample_env_def sample_parse_def)
  have fresh: "registry_lookup initial_state [] = None" "nextAddr initial_state + 2 = 3"
    "Errors initial_state = []" "ctxStack initial_state = []"
    by (simp_all add: registry_lookup_def registry_def initial_state_def)
  from MediaType_malformed_identifier_goes_on [OF top parse, of None] fresh
  obtain s1 where one: "MediaType sample_env ''not a type'' None initial_state = Some (Some 3, s1)"
    "Errors s1 = [InvalidIdentifier [] ''mime: expected slash after first token'']"
    "registry_lookup s1 [] = Some 3" "map_option Identifier (mediaTypes s1 3) = Some []"
    "ctxStack s1 = []"
    by (auto simp: canonical_malformed eval_nat_numeral)
  then have top1: "current s1 = None" by (simp add: current_def)
  from MediaType_malformed_identifier_goes_on [OF top1 parse, of None] one
  obtain s2 where two: "MediaType sample_env ''not a type'' None s1 = Some (None, s2)"
    "Errors s2 = [InvalidIdentifier [] ''mime: expected slash after first token'',
                   InvalidIdentifier [] ''mime: expected slash after first token'',
                   DuplicateDefinition MediaTypeKind []]"
    "mediaTypes s2 = mediaTypes s1"
    by (auto simp: canonical_malformed)
  from top parse one top1 two show ?thesis by blast
qed

text \<open>
  As the claim is written, nil is returned and nothing is registered for every
  malformed identifier. In a fresh process \<^verbatim>\<open>MediaType("not a type", nil)\<close> returns
  the definition at address 3, named \<open>MediaType1\<close> by the counter that the source
  keeps for media types without identifier, and registers it under the empty
  identifier.
\<close>

theorem MediaType_malformed_identifier_counterexample:
  "snd (snd (ParseMediaType sample_env ''not a type''))
        = Some ''mime: expected slash after first token''
   \<and> map_option fst (MediaType sample_env ''not a type'' None initial_state) = Some (Some 3)
   \<and> registry_lookup (snd (the (MediaType sample_env ''not a type'' None initial_state))) []
        = Some 3
   \<and> map_option TypeName
        (mediaTypes (snd (the (MediaType sample_env ''not a type'' None initial_state))) 3)
        = Some ''MediaType1''
   \<and> registry_lookup initial_state [] = None"
  by (simp add: MediaType_def initial_state_def sample_env_def sample_parse_def
      sample_format_def sample_camelize_def InitDesign_def topLevelDefinition_def current_def
      registry_lookup_def registry_def registry_store_def NewMediaTypeDefinition_def
      new_object_def new_attribute_def new_media_type_def Let_def ReportError_def format_int_def
      wrap_int64_def)

section \<open>Properties of Link\<close>

lemma sample_ctx: "current (inside def sample_state) = Some def"
  by (simp add: current_def inside_def)

text \<open>
  Claim C6. Inside a media type that has no link of that name yet, \<^verbatim>\<open>Link\<close> with the
  name alone stores a link definition with the view \<open>link\<close>, and with one more
  argument it stores that argument as the view; no diagnostic is reported. Every
  later \<^verbatim>\<open>Link\<close> call with the same name reports \<open>DuplicateDefinition\<close> and
  changes no media type, so the first link definition stays.
\<close>

theorem Link_default_and_explicit_view:
  assumes ctx: "current s = Some (MediaTypeDef mt)"
    and mt: "mediaTypes s mt = Some d"
    and new: "link_lookup d name = None"
    and args: "length view \<le> 1"
  shows "\<exists>s1. Link name view s = Some s1
           \<and> Errors s1 = Errors s
           \<and> link_at s1 mt name =
               Some \<lparr>LinkName = name,
                     LinkView = (case view of [] \<Rightarrow> ''link'' | v # _ \<Rightarrow> v),
                     LinkParent = mt\<rparr>
           \<and> (\<forall>view2. \<exists>s2. Link name view2 s1 = Some s2
                  \<and> Errors s2 = Errors s1 @ [DuplicateDefinition LinkKind name]
                  \<and> mediaTypes s2 = mediaTypes s1)"
  using assms
  by (cases view)
     (auto simp: Link_def mediaTypeDefinition_def current_def link_at_def link_lookup_def
        ReportError_def Let_def split: option.splits if_splits)

theorem Link_default_and_explicit_view_witness:
  "current (inside (MediaTypeDef 3) sample_state) = Some (MediaTypeDef 3)
   \<and> (\<exists>d. mediaTypes (inside (MediaTypeDef 3) sample_state) 3 = Some d
          \<and> link_lookup d ''origin'' = None)
   \<and> length [''tiny''] \<le> (1::nat) \<and> length ([]::string list) \<le> 1
   \<and> (\<exists>s1. Link ''origin'' [] (inside (MediaTypeDef 3) sample_state) = Some s1
          \<and> link_at s1 3 ''origin''
               = Some \<lparr>LinkName = ''origin'', LinkView = ''link'', LinkParent = 3\<rparr>)
   \<and> (\<exists>s1. Link ''origin'' [''tiny''] (inside (MediaTypeDef 3) sample_state) = Some s1
          \<and> link_at s1 3 ''origin''
               = Some \<lparr>LinkName = ''origin'', LinkView = ''tiny'', LinkParent = 3\<rparr>
          \<and> (\<exists>s2. Link ''origin'' [''other''] s1 = Some s2
                 \<and> Errors s2 = [DuplicateDefinition LinkKind ''origin'']
                 \<and> mediaTypes s2 = mediaTypes s1))"
proof -
  let ?s = "inside (MediaTypeDef 3) sample_state"
  obtain d where d: "mediaTypes ?s 3 = Some d" and new: "link_lookup d ''origin'' = None"
    by (simp add: inside_def sample_state_def link_lookup_def)
  have e: "Errors ?s = []" by (simp add: inside_def sample_state_def)
  from Link_default_and_explicit_view [OF sample_ctx d new, of "[]"]
  obtain s0 where a: "Link ''origin'' [] ?s = Some s0"
    "link_at s0 3 ''origin'' = Some \<lparr>LinkName = ''origin'', LinkView = ''link'', LinkParent = 3\<rparr>"
    by auto
  from Link_default_and_explicit_view [OF sample_ctx d new, of "[''tiny'']"]
  obtain s1 where b: "Link ''origin'' [''tiny''] ?s = Some s1" "Errors s1 = Errors ?s"
    "link_at s1 3 ''origin'' = Some \<lparr>LinkName = ''origin'', LinkView = ''tiny'', LinkParent = 3\<rparr>"
    and again: "\<forall>view2. \<exists>s2. Link ''origin'' view2 s1 = Some s2
                  \<and> Errors s2 = Errors s1 @ [DuplicateDefinition LinkKind ''origin'']
                  \<and> mediaTypes s2 = mediaTypes s1"
    by auto
  from again obtain s2 where c: "Link ''origin'' [''other''] s1 = Some s2"
    "Errors s2 = Errors s1 @ [DuplicateDefinition LinkKind ''origin'']"
    "mediaTypes s2 = mediaTypes s1"
    by blast
  from a b c d new e show ?thesis
    by (simp add: sample_ctx)
qed

text \<open>
  Claim C7. With more than one view argument and a name that is not yet a link of
  the media type, \<^verbatim>\<open>Link\<close> reports \<open>InvalidLinkSyntax\<close> and still stores the link,
  with the first of the view arguments.
\<close>

theorem Link_extra_view_arguments:
  assumes ctx: "current s = Some (MediaTypeDef mt)"
    and mt: "mediaTypes s mt = Some d"
    and new: "link_lookup d name = None"
  shows "\<exists>s1. Link name (v1 # v2 # vs) s = Some s1
           \<and> Errors s1 = Errors s @ [InvalidLinkSyntax name]
           \<and> link_at s1 mt name = Some \<lparr>LinkName = name, LinkView = v1, LinkParent = mt\<rparr>"
  using assms
  by (auto simp: Link_def mediaTypeDefinition_def current_def link_at_def link_lookup_def
        ReportError_def Let_def split: option.splits if_splits)

theorem Link_extra_view_arguments_witness:
  "current (inside (MediaTypeDef 3) sample_state) = Some (MediaTypeDef 3)
   \<and> (\<exists>d. mediaTypes (inside (MediaTypeDef 3) sample_state) 3 = Some d
          \<and> link_lookup d ''origin'' = None)
   \<and> (\<exists>s1. Link ''origin'' [''tiny'', ''huge''] (inside (MediaTypeDef 3) sample_state) = Some s1
          \<and> Errors s1 = [InvalidLinkSyntax ''origin'']
          \<and> link_at s1 3 ''origin''
               = Some \<lparr>LinkName = ''origin'', LinkView = ''tiny'', LinkParent = 3\<rparr>)"
proof -
  let ?s = "inside (MediaTypeDef 3) sample_state"
  obtain d where d: "mediaTypes ?s 3 = Some d" and new: "link_lookup d ''origin'' = None"
    by (simp add: inside_def sample_state_def link_lookup_def)
  have e: "Errors ?s = []" by (simp add: inside_def sample_state_def)
  from Link_extra_view_arguments [OF sample_ctx d new, of "''tiny''" "''huge''" "[]"] d new e
  show ?thesis
    by (simp add: sample_ctx)
qed

section \<open>Properties of Media\<close>

text \<open>
  Claim C9. Inside a response, \<^verbatim>\<open>Media\<close> sets the media type of the response to the
  identifier of a media type definition or to a string; a value of another kind is
  reported as \<open>InvalidArgument\<close> and the response keeps its media type.
\<close>

theorem Media_sets_response_media_type:
  assumes ctx: "current s = Some (ResponseDef r)"
    and resp: "responses s r = Some rd"
  shows "(\<forall>d. mediaTypes s m = Some d \<longrightarrow>
            Media (MediaTypeValue m) s
              = Some (s\<lparr>responses := (responses s)(r \<mapsto> rd\<lparr>ResponseMediaType := Identifier d\<rparr>)\<rparr>))
       \<and> Media (StringValue identifier) s
              = Some (s\<lparr>responses := (responses s)(r \<mapsto> rd\<lparr>ResponseMediaType := identifier\<rparr>)\<rparr>)
       \<and> Media (IntValue i) s = Some (s\<lparr>Errors := Errors s @ [InvalidArgument (IntValue i)]\<rparr>)
       \<and> Media NilValue s = Some (s\<lparr>Errors := Errors s @ [InvalidArgument NilValue]\<rparr>)"
  using assms
  by (simp add: Media_def responseDefinition_def ReportError_def)

theorem Media_sets_response_media_type_witness:
  "current (inside (ResponseDef 20) sample_state) = Some (ResponseDef 20)
   \<and> (\<exists>rd d s1 s2 s3.
         responses (inside (ResponseDef 20) sample_state) 20 = Some rd
       \<and> mediaTypes (inside (ResponseDef 20) sample_state) 3 = Some d
       \<and> Media (MediaTypeValue 3) (inside (ResponseDef 20) sample_state) = Some s1
       \<and> map_option ResponseMediaType (responses s1 20) = Some ''vnd.goa.example.bottle/json''
       \<and> Media (StringValue ''application/json'') (inside (ResponseDef 20) sample_state) = Some s2
       \<and> map_option ResponseMediaType (responses s2 20) = Some ''application/json''
       \<and> Media (IntValue 404) (inside (ResponseDef 20) sample_state) = Some s3
       \<and> Errors s3 = [InvalidArgument (IntValue 404)]
       \<and> responses s3 = responses (inside (ResponseDef 20) sample_state))"
proof -
  let ?s = "inside (ResponseDef 20) sample_state"
  have rd: "responses ?s 20 = Some \<lparr>ResponseName = ''NotFound'', ResponseMediaType = []\<rparr>"
    by (simp add: inside_def sample_state_def)
  obtain d where d: "mediaTypes ?s 3 = Some d"
    and i: "Identifier d = ''vnd.goa.example.bottle/json''"
    by (simp add: inside_def sample_state_def)
  have e: "Errors ?s = []" by (simp add: inside_def sample_state_def)
  from Media_sets_response_media_type [OF sample_ctx rd, of 3 "''application/json''" 404]
       rd d i e
  show ?thesis
    by (simp add: sample_ctx)
qed

section \<open>Properties of the types\<close>

text \<open>The first type that is not a media type ends the search.\<close>

lemma underlying_Primitive: "underlying s (Some (Primitive k)) = Some (Primitive k)"
  by (subst underlying.simps) simp

lemma underlying_Array: "underlying s (Some (Array a)) = Some (Array a)"
  by (subst underlying.simps) simp

lemma underlying_Object: "underlying s (Some (Object ob)) = Some (Object ob)"
  by (subst underlying.simps) simp

lemma underlying_MediaTypeT:
  "mediaTypes s m = Some d \<Longrightarrow> AttributeDefinition d = Some a \<Longrightarrow> attributes s a = Some ad \<Longrightarrow>
   underlying s (Some (MediaTypeT m)) = underlying s (Type ad)"
  by (subst underlying.simps) simp

text \<open>
  The methods give the same answer in a state that has kept every attribute
  definition and the root attribute of every media type.
\<close>

lemma underlying_transfer:
  assumes run: "underlying s t = Some ty"
  shows "(\<forall>m d. mediaTypes s m = Some d \<longrightarrow>
      (\<exists>d'. mediaTypes s' m = Some d' \<and> AttributeDefinition d' = AttributeDefinition d)) \<and>
   (\<forall>a ad. attributes s a = Some ad \<longrightarrow> attributes s' a = Some ad) \<Longrightarrow>
   underlying s' t = Some ty"
  using run
proof (induction s t ty rule: underlying.raw_induct[rotated 1, consumes 1, case_names step])
  case (step u s t ty)
  note body = step(2) and rel = step(3)
  show ?case
  proof (cases t)
    case None
    with body show ?thesis by simp
  next
    case (Some x)
    show ?thesis
    proof (cases x)
      case (MediaTypeT m)
      with body Some obtain d a ad where
        d: "mediaTypes s m = Some d" and a: "AttributeDefinition d = Some a"
        and ad: "attributes s a = Some ad" and u: "u s (Type ad) = Some ty"
        by (auto split: bind_splits)
      from rel d a obtain d' where
        d': "mediaTypes s' m = Some d'" "AttributeDefinition d' = Some a" by fastforce
      from rel ad have ad': "attributes s' a = Some ad" by blast
      from step(1)[OF u] rel have "underlying s' (Type ad) = Some ty"
        by blast
      with d' ad' Some MediaTypeT show ?thesis
        by (subst underlying.simps) simp
    next
      case (Primitive k)
      with body Some have "ty = x" by simp
      with Some Primitive show ?thesis by (subst underlying.simps) simp
    next
      case (Array k)
      with body Some have "ty = x" by simp
      with Some Array show ?thesis by (subst underlying.simps) simp
    next
      case (Object k)
      with body Some have "ty = x" by simp
      with Some Object show ?thesis by (subst underlying.simps) simp
    qed
  qed
qed

section \<open>Properties of CollectionOf\<close>

text \<open>
  Claim C3. For a media type whose identifier the parser accepts, in a design whose
  registry exists, \<^verbatim>\<open>CollectionOf(m)\<close> returns a new definition, registered under its
  identifier. That identifier is the formatting of the parsed media type (with the
  subtype \<open>json\<close> when it had none) and of the parsed parameters, to which
  \<open>type=collection\<close> is added only when they have no \<open>type\<close>; a \<open>type\<close> that is
  there is kept as it is. The type name is that of \<open>m\<close> followed by \<open>Collection\<close>, and
  the root attribute is an array of \<open>m\<close>.
\<close>

theorem CollectionOf_identifier_and_name:
  assumes m: "mediaTypes s m = Some md"
    and parse: "ParseMediaType env (Identifier md) = (mediatype, params, None)"
    and reg: "registry s = Some r"
  shows "\<exists>mt s' d. CollectionOf env m [] s = Some (Some mt, s')
           \<and> mediaTypes s' mt = Some d
           \<and> Identifier d =
               FormatMediaType env
                 (if CHR ''/'' \<in> set mediatype then mediatype else mediatype @ ''/json'')
                 (case params ''type'' of
                    None \<Rightarrow> params(''type'' \<mapsto> ''collection'')
                  | Some v \<Rightarrow> params)
           \<and> TypeName d = TypeName md @ ''Collection''
           \<and> (\<exists>elem ead. root_type s' mt = Some (Some (Array (ArrayOfElem (Some elem))))
                  \<and> attributes s' elem = Some ead \<and> Type ead = Some (MediaTypeT m))
           \<and> registry_lookup s' (Identifier d) = Some mt
           \<and> Errors s' = Errors s"
proof -
  from reg obtain de where de: "Design s = Some de" "MediaTypes de = Some r"
    by (auto simp: registry_def split: option.splits)
  show ?thesis
    using m parse de
    by (cases "params ''type''")
       (simp_all add: CollectionOf_def Let_def NewMediaTypeDefinition_def new_object_def
          new_attribute_def new_media_type_def executeDSL_def collection_body_def
          mediaTypeDefinition_def current_def update_media_type_def registry_store_def
          registry_lookup_def registry_def root_type_def)
qed

theorem CollectionOf_identifier_and_name_witness:
  "(\<exists>md. mediaTypes bottle_state 3 = Some md
       \<and> ParseMediaType sample_env (Identifier md)
            = (''vnd.goa.example.bottle/json'', Map.empty, None))
   \<and> registry bottle_state \<noteq> None
   \<and> (\<exists>mt s' d. CollectionOf sample_env 3 [] bottle_state = Some (Some mt, s')
          \<and> mediaTypes s' mt = Some d
          \<and> Identifier d = ''vnd.goa.example.bottle/json; type=collection''
          \<and> TypeName d = ''BottleCollection'')
   \<and> (\<exists>md. mediaTypes sample_state 19 = Some md
       \<and> ParseMediaType sample_env (Identifier md)
            = (''application/vnd.goa.example.bottle'', [''type'' \<mapsto> ''custom''], None))
   \<and> registry sample_state \<noteq> None
   \<and> (\<exists>mt s' d. CollectionOf sample_env 19 [] sample_state = Some (Some mt, s')
          \<and> mediaTypes s' mt = Some d
          \<and> Identifier d = ''application/vnd.goa.example.bottle; type=custom''
          \<and> TypeName d = ''CustomCollection'')"
proof -
  obtain md where md: "mediaTypes bottle_state 3 = Some md"
    and i: "Identifier md = ''vnd.goa.example.bottle/json''" and n: "TypeName md = ''Bottle''"
    by (simp add: bottle_state_def)
  have p: "ParseMediaType sample_env (Identifier md)
             = (''vnd.goa.example.bottle/json'', Map.empty, None)"
    by (simp add: i sample_env_def sample_parse_def)
  obtain r where r: "registry bottle_state = Some r"
    by (simp add: registry_def bottle_state_def)
  have f: "FormatMediaType sample_env ''vnd.goa.example.bottle/json''
             [''type'' \<mapsto> ''collection''] = ''vnd.goa.example.bottle/json; type=collection''"
    by (simp add: sample_env_def sample_format_def)
  obtain md2 where md2: "mediaTypes sample_state 19 = Some md2"
    and i2: "Identifier md2 = ''application/vnd.goa.example.bottle; type=custom''"
    and n2: "TypeName md2 = ''Custom''"
    by (simp add: sample_state_def)
  have p2: "ParseMediaType sample_env (Identifier md2)
             = (''application/vnd.goa.example.bottle'', [''type'' \<mapsto> ''custom''], None)"
    by (simp add: i2 sample_env_def sample_parse_def)
  obtain r2 where r2: "registry sample_state = Some r2"
    by (simp add: registry_def sample_state_def)
  have f2: "FormatMediaType sample_env ''application/vnd.goa.example.bottle''
             [''type'' \<mapsto> ''custom''] = ''application/vnd.goa.example.bottle; type=custom''"
    by (simp add: sample_env_def sample_format_def)
  from CollectionOf_identifier_and_name [OF md p r]
  obtain mt s' d where a: "CollectionOf sample_env 3 [] bottle_state = Some (Some mt, s')"
    "mediaTypes s' mt = Some d"
    "Identifier d = ''vnd.goa.example.bottle/json; type=collection''"
    "TypeName d = ''BottleCollection''"
    by (auto simp: f n)
  from CollectionOf_identifier_and_name [OF md2 p2 r2]
  obtain mt2 s2 d2 where b: "CollectionOf sample_env 19 [] sample_state = Some (Some mt2, s2)"
    "mediaTypes s2 mt2 = Some d2"
    "Identifier d2 = ''application/vnd.goa.example.bottle; type=custom''"
    "TypeName d2 = ''CustomCollection''"
    by (auto simp: f2 n2)
  from a b md p r md2 p2 r2 show ?thesis
    by auto
qed

section \<open>Properties of View\<close>

text \<open>
  Claim C8. Inside a media type whose root type is neither an object nor an array,
  as a scalar is, \<^verbatim>\<open>View\<close> reports \<open>UnsupportedViewTarget\<close> and changes nothing
  else, whatever its arguments: no view is added.
\<close>

theorem View_on_scalar_media_type:
  assumes ctx: "current s = Some (MediaTypeDef mt)"
    and root: "root_type s mt = Some t"
    and no_object: "IsObject s t = Some False"
    and no_array: "IsArray s t = Some False"
  shows "View env name dsl s = Some (s\<lparr>Errors := Errors s @ [UnsupportedViewTarget]\<rparr>)"
  using assms
  by (simp add: View_def mediaTypeDefinition_def ReportError_def)

theorem View_on_scalar_media_type_witness:
  "current (inside (MediaTypeDef 19) sample_state) = Some (MediaTypeDef 19)
   \<and> root_type (inside (MediaTypeDef 19) sample_state) 19 = Some (Some (Primitive ''string''))
   \<and> IsObject (inside (MediaTypeDef 19) sample_state) (Some (Primitive ''string'')) = Some False
   \<and> IsArray (inside (MediaTypeDef 19) sample_state) (Some (Primitive ''string'')) = Some False
   \<and> (\<exists>s'. View sample_env ''default'' [Some 0] (inside (MediaTypeDef 19) sample_state) = Some s'
          \<and> Errors s' = [UnsupportedViewTarget]
          \<and> mediaTypes s' = mediaTypes (inside (MediaTypeDef 19) sample_state))"
proof -
  let ?s = "inside (MediaTypeDef 19) sample_state"
  have ctx: "current ?s = Some (MediaTypeDef 19)"
    by (simp add: current_def inside_def)
  have root: "root_type ?s 19 = Some (Some (Primitive ''string''))"
    by (simp add: root_type_def inside_def sample_state_def)
  have o: "IsObject ?s (Some (Primitive ''string'')) = Some False"
    by (simp add: IsObject_def underlying_Primitive)
  have a: "IsArray ?s (Some (Primitive ''string'')) = Some False"
    by (simp add: IsArray_def underlying_Primitive)
  have e: "Errors ?s = []" by (simp add: inside_def sample_state_def)
  from View_on_scalar_media_type [OF ctx root o a, of sample_env "''default''" "[Some 0]"]
    ctx root o a e
  show ?thesis by simp
qed

subsection \<open>The loop over the names of a view\<close>

lemma map_of_replace_other:
  "k \<noteq> n \<Longrightarrow>
   map_of (map (\<lambda>(k, x). if k = n then (k, v) else (k, x)) kvs) k = map_of kvs k"
  by (induction kvs) auto

lemma map_of_replace_same:
  "map_of kvs n = Some v \<Longrightarrow>
   map_of (map (\<lambda>(k, x). if k = n then (k, v) else (k, x)) kvs) n = Some v"
  by (induction kvs) (auto split: if_splits)

lemma map_of_assign_same:
  assumes "map_of kvs n = Some v"
  shows "map_of (assign n v kvs) = map_of kvs"
proof -
  from assms have mem: "n \<in> fst ` set kvs"
    by (metis domI dom_map_of_conv_image_fst)
  have "map_of (map (\<lambda>(k, x). if k = n then (k, v) else (k, x)) kvs) k = map_of kvs k" for k
    using assms map_of_replace_other[of k n v kvs] map_of_replace_same[of kvs n v]
    by (cases "k = n") simp_all
  with mem show ?thesis by (auto simp: assign_def)
qed

lemma object_lookup_ReportError:
  "object_lookup (ReportError e s) mto = object_lookup s mto"
  by (cases mto) (simp_all add: object_lookup_def ReportError_def fun_eq_iff)

lemma keys_assign:
  "n \<in> fst ` set kvs \<Longrightarrow> map fst (assign n v kvs) = map fst kvs"
  by (auto simp: assign_def split: prod.splits)

lemma object_lookup_store:
  "object_lookup s mto n = Some v \<Longrightarrow>
   object_lookup (object_store ob n v s) mto = object_lookup s mto"
  by (cases mto) (auto simp: object_lookup_def object_store_def map_of_assign_same fun_eq_iff)

lemma resolve_attributes_frame:
  "mediaTypes (resolve_attributes mto ob ns s) = mediaTypes s
   \<and> attributes (resolve_attributes mto ob ns s) = attributes s
   \<and> Design (resolve_attributes mto ob ns s) = Design s
   \<and> ctxStack (resolve_attributes mto ob ns s) = ctxStack s
   \<and> responses (resolve_attributes mto ob ns s) = responses s
   \<and> nextAddr (resolve_attributes mto ob ns s) = nextAddr s
   \<and> (\<forall>r. r \<noteq> ob \<longrightarrow> objects (resolve_attributes mto ob ns s) r = objects s r)"
  by (induction ns arbitrary: s)
     (auto simp: object_store_def ReportError_def split: option.splits)

lemma resolve_attributes_errors:
  "Errors (resolve_attributes mto ob ns s) =
     Errors s @ map UnknownAttribute
       (filter (\<lambda>n. object_lookup s mto n = None \<and> n \<noteq> ''links'') ns)"
proof (induction ns arbitrary: s)
  case Nil
  then show ?case by simp
next
  case (Cons n ns)
  show ?case
  proof (cases "object_lookup s mto n")
    case None
    with Cons show ?thesis
      by (simp add: object_lookup_ReportError) (simp add: ReportError_def)
  next
    case (Some v)
    have "Errors (object_store ob n v s) = Errors s" by (simp add: object_store_def)
    with Some Cons object_lookup_store[OF Some] show ?thesis by simp
  qed
qed

lemma resolve_attributes_objects_aux:
  "object_lookup s mto = L \<Longrightarrow> set ns \<subseteq> fst ` set (objects s ob) \<Longrightarrow>
   objects (resolve_attributes mto ob ns s) ob =
     map (\<lambda>(n, placeholder).
            (n, if n \<in> set ns
                then (case L n of Some existing \<Rightarrow> existing | None \<Rightarrow> placeholder)
                else placeholder))
       (objects s ob)"
proof (induction ns arbitrary: s)
  case Nil
  then show ?case by (simp add: case_prod_beta)
next
  case (Cons n ns)
  show ?case
  proof (cases "L n")
    case None
    define s1 where "s1 = (if n \<noteq> ''links'' then ReportError (UnknownAttribute n) s else s)"
    have l: "object_lookup s1 mto = L"
      using Cons.prems(1) by (simp add: s1_def object_lookup_ReportError)
    have o: "objects s1 = objects s" by (simp add: s1_def ReportError_def)
    from Cons.prems have sub: "set ns \<subseteq> fst ` set (objects s1 ob)" by (simp add: o)
    have step: "resolve_attributes mto ob (n # ns) s = resolve_attributes mto ob ns s1"
      using None Cons.prems(1) by (simp add: s1_def)
    have "map (\<lambda>(k, p). (k, if k \<in> set ns
                then (case L k of Some existing \<Rightarrow> existing | None \<Rightarrow> p) else p)) kvs
        = map (\<lambda>(k, p). (k, if k \<in> set (n # ns)
                then (case L k of Some existing \<Rightarrow> existing | None \<Rightarrow> p) else p)) kvs" for kvs
      using None by (induction kvs) auto
    with Cons.IH[OF l sub] step o show ?thesis by simp
  next
    case (Some v)
    define s1 where "s1 = object_store ob n v s"
    from Some Cons.prems(1) have found: "object_lookup s mto n = Some v" by simp
    have l: "object_lookup s1 mto = L"
      using object_lookup_store[OF found] Cons.prems(1) by (simp add: s1_def)
    from Cons.prems have mem: "n \<in> fst ` set (objects s ob)" by simp
    have o: "objects s1 ob = map (\<lambda>(k, x). if k = n then (k, v) else (k, x)) (objects s ob)"
      using mem by (simp add: s1_def object_store_def assign_def)
    have "map fst (objects s1 ob) = map fst (objects s ob)"
      using mem by (simp add: s1_def object_store_def keys_assign)
    then have "fst ` set (objects s1 ob) = fst ` set (objects s ob)"
      by (metis list.set_map)
    with Cons.prems have sub: "set ns \<subseteq> fst ` set (objects s1 ob)" by simp
    have step: "resolve_attributes mto ob (n # ns) s = resolve_attributes mto ob ns s1"
      using found by (simp add: s1_def)
    have "map (\<lambda>(k, p). (k, if k \<in> set ns
                then (case L k of Some existing \<Rightarrow> existing | None \<Rightarrow> p) else p))
            (map (\<lambda>(k, x). if k = n then (k, v) else (k, x)) kvs)
        = map (\<lambda>(k, p). (k, if k \<in> set (n # ns)
                then (case L k of Some existing \<Rightarrow> existing | None \<Rightarrow> p) else p)) kvs" for kvs
      using Some by (induction kvs) auto
    with Cons.IH[OF l sub] step o show ?thesis by simp
  qed
qed

lemma resolve_attributes_objects:
  "objects (resolve_attributes mto ob (map fst (objects s ob)) s) ob =
     map (\<lambda>(n, placeholder).
            (n, case object_lookup s mto n of Some existing \<Rightarrow> existing | None \<Rightarrow> placeholder))
       (objects s ob)"
proof -
  have "map (\<lambda>(n, p). (n, if n \<in> set (map fst kvs)
                then (case L n of Some existing \<Rightarrow> existing | None \<Rightarrow> p) else p)) kvs
      = map (\<lambda>(n, p). (n, case L n of Some existing \<Rightarrow> existing | None \<Rightarrow> p)) kvs"
    for kvs :: "(string \<times> addr) list" and L
    by (rule map_cong) (auto simp: rev_image_eqI)
  with resolve_attributes_objects_aux[of s mto "object_lookup s mto" "map fst (objects s ob)" ob]
  show ?thesis by simp
qed

subsection \<open>Storing the view\<close>

lemma view_finish_eq:
  assumes at: "attributes s at = Some ad"
    and ob: "ToObject s (Type ad) = Some ob"
    and parent: "\<And>r. ob = Some r \<Longrightarrow> parent_object s mt = Some mto"
    and mt: "mediaTypes s mt = Some d"
    and views: "Views d = Some vs"
  shows "view_finish mt name at True s =
           Some ((case ob of
                    None \<Rightarrow> s
                  | Some r \<Rightarrow> resolve_attributes mto r (map fst (objects s r)) s)
                 \<lparr>mediaTypes := (mediaTypes s)(mt \<mapsto>
                     d\<lparr>Views := Some (vs(name \<mapsto>
                          \<lparr>ViewAttributeDefinition = at, ViewName = name,
                           ViewParent = mt\<rparr>))\<rparr>)\<rparr>)"
proof (cases ob)
  case None
  with at ob mt views show ?thesis by (simp add: view_finish_def)
next
  case (Some r)
  with at ob mt views parent[OF Some] show ?thesis
    by (simp add: view_finish_def resolve_attributes_frame)
qed

subsection \<open>Calls with a new name\<close>

text \<open>
  Up to line 193 a call on a new name reports nothing: it makes the map of views
  when that was nil and allocates the attribute definition of the view, which is
  all that \<open>view_entry\<close> changes. Without closure the call goes on with lines 197
  to 211.
\<close>

lemma view_entry_fields:
  assumes mt: "mediaTypes s mt = Some d"
  shows "Errors (view_entry mt s) = Errors s"
    and "objects (view_entry mt s) = objects s"
    and "ctxStack (view_entry mt s) = ctxStack s"
    and "Design (view_entry mt s) = Design s"
    and "responses (view_entry mt s) = responses s"
    and "mediaTypeCount (view_entry mt s) = mediaTypeCount s"
    and "nextAddr (view_entry mt s) = Suc (nextAddr s)"
    and "attributes (view_entry mt s) =
           (attributes s)(nextAddr s \<mapsto> \<lparr>Type = None, AttrView = []\<rparr>)"
    and "mediaTypes (view_entry mt s) = (mediaTypes s)(mt \<mapsto>
           d\<lparr>Views := Some (case Views d of None \<Rightarrow> Map.empty | Some vs \<Rightarrow> vs)\<rparr>)"
proof -
  have "(mediaTypes s)(mt \<mapsto> d\<lparr>Views := Some vs\<rparr>) = mediaTypes s" if "Views d = Some vs" for vs
    using mt that by (auto simp: fun_eq_iff)
  then show "mediaTypes (view_entry mt s) = (mediaTypes s)(mt \<mapsto>
           d\<lparr>Views := Some (case Views d of None \<Rightarrow> Map.empty | Some vs \<Rightarrow> vs)\<rparr>)"
    using mt by (simp add: view_entry_def new_attribute_def split: option.splits)
qed (use mt in \<open>simp_all add: view_entry_def new_attribute_def split: option.splits\<close>)

lemma View_new_name_without_closure:
  assumes ctx: "current s = Some (MediaTypeDef mt)"
    and root: "root_type s mt = Some t"
    and target: "IsObject s t = Some True \<or> IsObject s t = Some False \<and> IsArray s t = Some True"
    and mt: "mediaTypes s mt = Some d"
    and new: "view_lookup d name = None"
  shows "View env name [] s = view_inherit mt name (nextAddr s) (view_entry mt s)"
  using assms
  by (cases "Views d")
     (auto simp: View_def mediaTypeDefinition_def new_attribute_def Let_def view_lookup_def
        view_entry_def)

text \<open>
  With a closure on a new name, \<^verbatim>\<open>View\<close> runs the closure against the new attribute
  definition and hands its result to lines 212 to 232.
\<close>

lemma View_new_name_with_closure:
  assumes ctx: "current s = Some (MediaTypeDef mt)"
    and root: "root_type s mt = Some t"
    and target: "IsObject s t = Some True \<or> IsObject s t = Some False \<and> IsArray s t = Some True"
    and mt: "mediaTypes s mt = Some d"
    and new: "view_lookup d name = None"
  shows "View env name (b # bs) s =
           executeDSL (user_closure env b) (AttributeDef (nextAddr s)) (view_entry mt s)
             \<bind> (\<lambda>(ok, s3). view_finish mt name (nextAddr s) ok s3)"
  using assms
  by (cases "Views d")
     (auto simp: View_def mediaTypeDefinition_def new_attribute_def Let_def view_lookup_def
        view_entry_def)

text \<open>What the sample closure leaves behind.\<close>

lemma sample_closure_run:
  assumes "attributes s at = Some ad"
  shows "executeDSL (user_closure sample_env (Some 2)) (AttributeDef at) s =
           Some (True,
             s\<lparr>attributes := (attributes s)
                  (nextAddr s \<mapsto> \<lparr>Type = Some (Primitive ''string''), AttrView = []\<rparr>,
                   Suc (nextAddr s) \<mapsto> \<lparr>Type = Some (Primitive ''string''), AttrView = []\<rparr>,
                   at \<mapsto> (the (((attributes s)
                      (nextAddr s \<mapsto> \<lparr>Type = Some (Primitive ''string''), AttrView = []\<rparr>,
                       Suc (nextAddr s) \<mapsto> \<lparr>Type = Some (Primitive ''string''), AttrView = []\<rparr>)) at))
                        \<lparr>Type := Some (Object (Suc (Suc (nextAddr s))))\<rparr>),
               objects := (objects s)
                  (Suc (Suc (nextAddr s)) := [(''id'', nextAddr s), (''vintage'', Suc (nextAddr s))]),
               nextAddr := Suc (Suc (Suc (nextAddr s)))\<rparr>)"
  using assms
  by (auto simp: executeDSL_def user_closure_def sample_env_def sample_view_closure_def
      current_def new_attribute_def new_object_def Let_def split: option.splits)

text \<open>
  Claim C4. Inside a media type whose root type is an object or an array, \<^verbatim>\<open>View\<close>
  is called with a new name and a closure. The closure returns without a new
  diagnostic and leaves the state \<open>s3\<close>, in which the attribute definition of the
  view is an object \<open>ob\<close> and the media type still has its map of views: the view
  is built. The names are resolved in the object \<open>mto\<close> of the media type, or of
  the element of its array when the root is an array. Every entry of \<open>ob\<close> whose
  name \<open>mto\<close> knows then holds the address that \<open>mto\<close> holds, which is the attribute
  definition of the media type itself and no copy; the other entries keep their
  placeholder. The diagnostics added are one \<open>UnknownAttribute\<close> for each name that
  \<open>mto\<close> does not know, \<open>links\<close> excepted, and the view is stored under its name
  all the same.
\<close>

theorem View_resolves_attributes:
  assumes ctx: "current s = Some (MediaTypeDef mt)"
    and root: "root_type s mt = Some t"
    and target: "IsObject s t = Some True \<or> IsObject s t = Some False \<and> IsArray s t = Some True"
    and new: "view_at s mt name = None"
    and built: "executeDSL (user_closure env b) (AttributeDef (nextAddr s)) (view_entry mt s)
                  = Some (True, s3)"
    and at: "attributes s3 (nextAddr s) = Some ad"
    and ob: "ToObject s3 (Type ad) = Some (Some ob)"
    and root3: "root_type s3 mt = Some (Some rt)"
    and owner: "case rt of
                  Object po \<Rightarrow> mto = Some po
                | Array a \<Rightarrow>
                    (\<exists>elem ead. ElemType a = Some elem \<and> attributes s3 elem = Some ead
                        \<and> ToObject s3 (Type ead) = Some mto)
                | _ \<Rightarrow> False"
    and mt3: "mediaTypes s3 mt = Some d3"
    and views3: "Views d3 = Some vs"
  shows "\<exists>s'. View env name (b # bs) s = Some s'
           \<and> objects s' ob =
               map (\<lambda>(n, placeholder).
                      (n, case object_lookup s3 mto n of
                            Some existing \<Rightarrow> existing
                          | None \<Rightarrow> placeholder))
                 (objects s3 ob)
           \<and> Errors s' = Errors s3 @ map UnknownAttribute
               (filter (\<lambda>n. object_lookup s3 mto n = None \<and> n \<noteq> ''links'')
                  (map fst (objects s3 ob)))
           \<and> view_at s' mt name =
               Some \<lparr>ViewAttributeDefinition = nextAddr s, ViewName = name, ViewParent = mt\<rparr>
           \<and> attributes s' = attributes s3"
proof -
  from root obtain d where d: "mediaTypes s mt = Some d"
    by (auto simp: root_type_def split: bind_splits)
  from new d have new': "view_lookup d name = None" by (simp add: view_at_def)
  have call: "View env name (b # bs) s = view_finish mt name (nextAddr s) True s3"
    using View_new_name_with_closure[OF ctx root target d new', of env b bs] built by simp
  have parent: "parent_object s3 mt = Some mto"
  proof (cases rt)
    case (Object po)
    with root3 owner show ?thesis
      by (simp add: parent_object_def ToObject_def underlying_Object)
  next
    case (Array a)
    with owner obtain elem ead where "ElemType a = Some elem" "attributes s3 elem = Some ead"
      "ToObject s3 (Type ead) = Some mto" by auto
    with root3 Array show ?thesis
      by (simp add: parent_object_def ToObject_def ToArray_def underlying_Array)
  qed (use owner in simp_all)
  from view_finish_eq[OF at ob parent mt3 views3, of name] call
  show ?thesis
    by (simp add: resolve_attributes_objects resolve_attributes_errors resolve_attributes_frame
        view_at_def view_lookup_def)
qed

theorem View_resolves_attributes_witness:
  "(current (inside (MediaTypeDef 3) sample_state) = Some (MediaTypeDef 3)
   \<and> root_type (inside (MediaTypeDef 3) sample_state) 3 = Some (Some (Object 1))
   \<and> IsObject (inside (MediaTypeDef 3) sample_state) (Some (Object 1)) = Some True
   \<and> view_at (inside (MediaTypeDef 3) sample_state) 3 ''extended'' = None
   \<and> nextAddr (inside (MediaTypeDef 3) sample_state) = 24
   \<and> (\<exists>s3 ad d3 vs.
         executeDSL (user_closure sample_env (Some 2)) (AttributeDef 24)
           (view_entry 3 (inside (MediaTypeDef 3) sample_state)) = Some (True, s3)
       \<and> attributes s3 24 = Some ad \<and> ToObject s3 (Type ad) = Some (Some 27)
       \<and> root_type s3 3 = Some (Some (Object 1))
       \<and> mediaTypes s3 3 = Some d3 \<and> Views d3 = Some vs
       \<and> objects s3 27 = [(''id'', 25), (''vintage'', 26)]
       \<and> objects s3 1 = [(''id'', 5), (''href'', 6)]
       \<and> Errors s3 = [])
   \<and> (\<exists>s'. View sample_env ''extended'' [Some 2] (inside (MediaTypeDef 3) sample_state) = Some s'
          \<and> objects s' 27 = [(''id'', 5), (''vintage'', 26)]
          \<and> Errors s' = [UnknownAttribute ''vintage'']
          \<and> view_at s' 3 ''extended''
               = Some \<lparr>ViewAttributeDefinition = 24, ViewName = ''extended'', ViewParent = 3\<rparr>))
   \<and> (current (inside (MediaTypeDef 16) sample_state) = Some (MediaTypeDef 16)
   \<and> root_type (inside (MediaTypeDef 16) sample_state) 16
        = Some (Some (Array (ArrayOfElem (Some 14))))
   \<and> IsObject (inside (MediaTypeDef 16) sample_state)
        (Some (Array (ArrayOfElem (Some 14)))) = Some False
   \<and> IsArray (inside (MediaTypeDef 16) sample_state)
        (Some (Array (ArrayOfElem (Some 14)))) = Some True
   \<and> view_at (inside (MediaTypeDef 16) sample_state) 16 ''extended'' = None
   \<and> nextAddr (inside (MediaTypeDef 16) sample_state) = 24
   \<and> (\<exists>s3 ad ead d3 vs.
         executeDSL (user_closure sample_env (Some 2)) (AttributeDef 24)
           (view_entry 16 (inside (MediaTypeDef 16) sample_state)) = Some (True, s3)
       \<and> attributes s3 24 = Some ad \<and> ToObject s3 (Type ad) = Some (Some 27)
       \<and> root_type s3 16 = Some (Some (Array (ArrayOfElem (Some 14))))
       \<and> attributes s3 14 = Some ead \<and> ToObject s3 (Type ead) = Some (Some 1)
       \<and> mediaTypes s3 16 = Some d3 \<and> Views d3 = Some vs
       \<and> objects s3 27 = [(''id'', 25), (''vintage'', 26)]
       \<and> objects s3 1 = [(''id'', 5), (''href'', 6)]
       \<and> Errors s3 = [])
   \<and> (\<exists>s'. View sample_env ''extended'' [Some 2] (inside (MediaTypeDef 16) sample_state) = Some s'
          \<and> objects s' 27 = [(''id'', 5), (''vintage'', 26)]
          \<and> Errors s' = [UnknownAttribute ''vintage'']
          \<and> view_at s' 16 ''extended''
               = Some \<lparr>ViewAttributeDefinition = 24, ViewName = ''extended'', ViewParent = 16\<rparr>))"
proof -
  have first:
    "current (inside (MediaTypeDef 3) sample_state) = Some (MediaTypeDef 3)
   \<and> root_type (inside (MediaTypeDef 3) sample_state) 3 = Some (Some (Object 1))
   \<and> IsObject (inside (MediaTypeDef 3) sample_state) (Some (Object 1)) = Some True
   \<and> view_at (inside (MediaTypeDef 3) sample_state) 3 ''extended'' = None
   \<and> nextAddr (inside (MediaTypeDef 3) sample_state) = 24
   \<and> (\<exists>s3 ad d3 vs.
         executeDSL (user_closure sample_env (Some 2)) (AttributeDef 24)
           (view_entry 3 (inside (MediaTypeDef 3) sample_state)) = Some (True, s3)
       \<and> attributes s3 24 = Some ad \<and> ToObject s3 (Type ad) = Some (Some 27)
       \<and> root_type s3 3 = Some (Some (Object 1))
       \<and> mediaTypes s3 3 = Some d3 \<and> Views d3 = Some vs
       \<and> objects s3 27 = [(''id'', 25), (''vintage'', 26)]
       \<and> objects s3 1 = [(''id'', 5), (''href'', 6)]
       \<and> Errors s3 = [])
   \<and> (\<exists>s'. View sample_env ''extended'' [Some 2] (inside (MediaTypeDef 3) sample_state) = Some s'
          \<and> objects s' 27 = [(''id'', 5), (''vintage'', 26)]
          \<and> Errors s' = [UnknownAttribute ''vintage'']
          \<and> view_at s' 3 ''extended''
               = Some \<lparr>ViewAttributeDefinition = 24, ViewName = ''extended'', ViewParent = 3\<rparr>)"
  proof -
    let ?s = "inside (MediaTypeDef 3) sample_state"
    have root: "root_type ?s 3 = Some (Some (Object 1))"
      by (simp add: root_type_def inside_def sample_state_def)
    have isobj: "IsObject ?s (Some (Object 1)) = Some True"
      by (simp add: IsObject_def underlying_Object)
    then have target: "IsObject ?s (Some (Object 1)) = Some True
        \<or> IsObject ?s (Some (Object 1)) = Some False \<and> IsArray ?s (Some (Object 1)) = Some True"
      by simp
    have new: "view_at ?s 3 ''extended'' = None"
      by (simp add: view_at_def view_lookup_def inside_def sample_state_def)
    have next24: "nextAddr ?s = 24" by (simp add: inside_def sample_state_def)
    obtain d where d: "mediaTypes ?s 3 = Some d" and d_root: "AttributeDefinition d = Some 2"
      and d_views: "Views d \<noteq> None"
      by (simp add: inside_def sample_state_def)
    have a2: "attributes ?s 2 = Some \<lparr>Type = Some (Object 1), AttrView = []\<rparr>"
      by (simp add: inside_def sample_state_def)
    have o1s: "objects ?s (Suc 0) = [(''id'', 5), (''href'', 6)]"
      by (simp add: inside_def sample_state_def)
    have es: "Errors ?s = []" by (simp add: inside_def sample_state_def)
    note entry = view_entry_fields[OF d]
    have at0: "attributes (view_entry 3 ?s) 24 = Some \<lparr>Type = None, AttrView = []\<rparr>"
      by (simp add: entry next24)
    define s3 where "s3 = snd (the (executeDSL (user_closure sample_env (Some 2)) (AttributeDef 24)
             (view_entry 3 ?s)))"
    have built: "executeDSL (user_closure sample_env (Some 2)) (AttributeDef (nextAddr ?s))
             (view_entry 3 ?s) = Some (True, s3)"
      unfolding s3_def next24 by (simp add: sample_closure_run[OF at0])
    have s3: "s3 = (view_entry 3 ?s)\<lparr>attributes := (attributes (view_entry 3 ?s))
                    (25 \<mapsto> \<lparr>Type = Some (Primitive ''string''), AttrView = []\<rparr>,
                     26 \<mapsto> \<lparr>Type = Some (Primitive ''string''), AttrView = []\<rparr>,
                     24 \<mapsto> \<lparr>Type = Some (Object 27), AttrView = []\<rparr>),
                 objects := (objects (view_entry 3 ?s))(27 := [(''id'', 25), (''vintage'', 26)]),
                 nextAddr := 28\<rparr>"
      unfolding s3_def by (simp add: sample_closure_run[OF at0] entry next24)
    have at: "attributes s3 (nextAddr ?s) = Some \<lparr>Type = Some (Object 27), AttrView = []\<rparr>"
      by (simp add: s3 next24)
    have ob: "ToObject s3 (Type \<lparr>Type = Some (Object 27), AttrView = []\<rparr>) = Some (Some 27)"
      by (simp add: ToObject_def underlying_Object)
    have m3: "mediaTypes s3 3 = Some (d\<lparr>Views := Some (case Views d of None \<Rightarrow> Map.empty
                                                         | Some vs \<Rightarrow> vs)\<rparr>)"
      by (simp add: s3 entry)
    have a23: "attributes s3 2 = attributes ?s 2" by (simp add: s3 entry next24)
    have root3: "root_type s3 3 = Some (Some (Object 1))"
      by (simp add: root_type_def m3 a23 a2 d_root)
    obtain d3 vs where d3: "mediaTypes s3 3 = Some d3" and vs: "Views d3 = Some vs"
      using m3 by simp
    have o27: "objects s3 27 = [(''id'', 25), (''vintage'', 26)]" by (simp add: s3)
    have o1: "objects s3 (Suc 0) = [(''id'', 5), (''href'', 6)]"
      by (simp add: s3 entry o1s)
    have e: "Errors s3 = []" by (simp add: s3 entry es)
    note step1 = View_resolves_attributes [OF sample_ctx root target new built at ob root3]
    from step1 [where mto = "Some 1" and bs = "[]", OF _ d3 vs]
    obtain s' where "View sample_env ''extended'' [Some 2] ?s = Some s'"
      "objects s' 27 = [(''id'', 5), (''vintage'', 26)]"
      "Errors s' = [UnknownAttribute ''vintage'']"
      "view_at s' 3 ''extended''
         = Some \<lparr>ViewAttributeDefinition = 24, ViewName = ''extended'', ViewParent = 3\<rparr>"
      by (auto simp: o27 o1 e object_lookup_def next24)
    with sample_ctx root isobj new next24 built at ob root3 d3 vs o27 o1 e
    show ?thesis
      by (auto simp: next24)
  qed
  have second:
    "current (inside (MediaTypeDef 16) sample_state) = Some (MediaTypeDef 16)
   \<and> root_type (inside (MediaTypeDef 16) sample_state) 16
        = Some (Some (Array (ArrayOfElem (Some 14))))
   \<and> IsObject (inside (MediaTypeDef 16) sample_state)
        (Some (Array (ArrayOfElem (Some 14)))) = Some False
   \<and> IsArray (inside (MediaTypeDef 16) sample_state)
        (Some (Array (ArrayOfElem (Some 14)))) = Some True
   \<and> view_at (inside (MediaTypeDef 16) sample_state) 16 ''extended'' = None
   \<and> nextAddr (inside (MediaTypeDef 16) sample_state) = 24
   \<and> (\<exists>s3 ad ead d3 vs.
         executeDSL (user_closure sample_env (Some 2)) (AttributeDef 24)
           (view_entry 16 (inside (MediaTypeDef 16) sample_state)) = Some (True, s3)
       \<and> attributes s3 24 = Some ad \<and> ToObject s3 (Type ad) = Some (Some 27)
       \<and> root_type s3 16 = Some (Some (Array (ArrayOfElem (Some 14))))
       \<and> attributes s3 14 = Some ead \<and> ToObject s3 (Type ead) = Some (Some 1)
       \<and> mediaTypes s3 16 = Some d3 \<and> Views d3 = Some vs
       \<and> objects s3 27 = [(''id'', 25), (''vintage'', 26)]
       \<and> objects s3 1 = [(''id'', 5), (''href'', 6)]
       \<and> Errors s3 = [])
   \<and> (\<exists>s'. View sample_env ''extended'' [Some 2] (inside (MediaTypeDef 16) sample_state) = Some s'
          \<and> objects s' 27 = [(''id'', 5), (''vintage'', 26)]
          \<and> Errors s' = [UnknownAttribute ''vintage'']
          \<and> view_at s' 16 ''extended''
               = Some \<lparr>ViewAttributeDefinition = 24, ViewName = ''extended'', ViewParent = 16\<rparr>)"
  proof -
    let ?s = "inside (MediaTypeDef 16) sample_state"
    let ?arr = "Array (ArrayOfElem (Some 14))"
    have root: "root_type ?s 16 = Some (Some ?arr)"
      by (simp add: root_type_def inside_def sample_state_def)
    have isobj: "IsObject ?s (Some ?arr) = Some False" "IsArray ?s (Some ?arr) = Some True"
      by (simp_all add: IsObject_def IsArray_def underlying_Array)
    then have target: "IsObject ?s (Some ?arr) = Some True
        \<or> IsObject ?s (Some ?arr) = Some False \<and> IsArray ?s (Some ?arr) = Some True"
      by simp
    have new: "view_at ?s 16 ''extended'' = None"
      by (simp add: view_at_def view_lookup_def inside_def sample_state_def)
    have next24: "nextAddr ?s = 24" by (simp add: inside_def sample_state_def)
    obtain d where d: "mediaTypes ?s 16 = Some d" and d_root: "AttributeDefinition d = Some 15"
      by (simp add: inside_def sample_state_def)
    obtain pd where pd: "mediaTypes ?s 3 = Some pd" and pd_root: "AttributeDefinition pd = Some 2"
      by (simp add: inside_def sample_state_def)
    have a2: "attributes ?s 2 = Some \<lparr>Type = Some (Object 1), AttrView = []\<rparr>"
      and a14: "attributes ?s 14 = Some \<lparr>Type = Some (MediaTypeT 3), AttrView = []\<rparr>"
      and a15: "attributes ?s 15 = Some \<lparr>Type = Some ?arr, AttrView = []\<rparr>"
      by (simp_all add: inside_def sample_state_def)
    have o1s: "objects ?s (Suc 0) = [(''id'', 5), (''href'', 6)]"
      by (simp add: inside_def sample_state_def)
    have es: "Errors ?s = []" by (simp add: inside_def sample_state_def)
    note entry = view_entry_fields[OF d]
    have at0: "attributes (view_entry 16 ?s) 24 = Some \<lparr>Type = None, AttrView = []\<rparr>"
      by (simp add: entry next24)
    define s3 where "s3 = snd (the (executeDSL (user_closure sample_env (Some 2)) (AttributeDef 24)
             (view_entry 16 ?s)))"
    have built: "executeDSL (user_closure sample_env (Some 2)) (AttributeDef (nextAddr ?s))
             (view_entry 16 ?s) = Some (True, s3)"
      unfolding s3_def next24 by (simp add: sample_closure_run[OF at0])
    have s3: "s3 = (view_entry 16 ?s)\<lparr>attributes := (attributes (view_entry 16 ?s))
                    (25 \<mapsto> \<lparr>Type = Some (Primitive ''string''), AttrView = []\<rparr>,
                     26 \<mapsto> \<lparr>Type = Some (Primitive ''string''), AttrView = []\<rparr>,
                     24 \<mapsto> \<lparr>Type = Some (Object 27), AttrView = []\<rparr>),
                 objects := (objects (view_entry 16 ?s))(27 := [(''id'', 25), (''vintage'', 26)]),
                 nextAddr := 28\<rparr>"
      unfolding s3_def by (simp add: sample_closure_run[OF at0] entry next24)
    have at: "attributes s3 (nextAddr ?s) = Some \<lparr>Type = Some (Object 27), AttrView = []\<rparr>"
      by (simp add: s3 next24)
    have ob: "ToObject s3 (Type \<lparr>Type = Some (Object 27), AttrView = []\<rparr>) = Some (Some 27)"
      by (simp add: ToObject_def underlying_Object)
    have m16: "mediaTypes s3 16 = Some (d\<lparr>Views := Some (case Views d of None \<Rightarrow> Map.empty
                                                         | Some vs \<Rightarrow> vs)\<rparr>)"
      by (simp add: s3 entry)
    have m3: "mediaTypes s3 3 = Some pd" by (simp add: s3 entry pd)
    have a3: "attributes s3 2 = Some \<lparr>Type = Some (Object 1), AttrView = []\<rparr>"
      "attributes s3 14 = Some \<lparr>Type = Some (MediaTypeT 3), AttrView = []\<rparr>"
      "attributes s3 15 = Some \<lparr>Type = Some ?arr, AttrView = []\<rparr>"
      by (simp_all add: s3 entry next24 a2 a14 a15)
    have root3: "root_type s3 16 = Some (Some ?arr)"
      by (simp add: root_type_def m16 a3 d_root)
    have elem: "ToObject s3 (Type \<lparr>Type = Some (MediaTypeT 3), AttrView = []\<rparr>) = Some (Some 1)"
      by (simp add: ToObject_def underlying_MediaTypeT[OF m3 pd_root a3(1)] underlying_Object)
    obtain d3 vs where d3: "mediaTypes s3 16 = Some d3" and vs: "Views d3 = Some vs"
      using m16 by simp
    have o27: "objects s3 27 = [(''id'', 25), (''vintage'', 26)]" by (simp add: s3)
    have o1: "objects s3 (Suc 0) = [(''id'', 5), (''href'', 6)]"
      by (simp add: s3 entry o1s)
    have e: "Errors s3 = []" by (simp add: s3 entry es)
    note step1 = View_resolves_attributes [OF sample_ctx root target new built at ob root3]
    from step1 [where mto = "Some 1" and bs = "[]", OF _ d3 vs] a3(2) elem
    obtain s' where "View sample_env ''extended'' [Some 2] ?s = Some s'"
      "objects s' 27 = [(''id'', 5), (''vintage'', 26)]"
      "Errors s' = [UnknownAttribute ''vintage'']"
      "view_at s' 16 ''extended''
         = Some \<lparr>ViewAttributeDefinition = 24, ViewName = ''extended'', ViewParent = 16\<rparr>"
      by (auto simp: o27 o1 e object_lookup_def next24)
    with sample_ctx root isobj new next24 built at ob root3 a3(2) elem d3 vs o27 o1 e
    show ?thesis
      by (auto simp: next24)
  qed
  from first second show ?thesis by (rule conjI)
qed

lemma ToObject_transfer:
  assumes "ToObject s t = Some x"
    and "\<forall>m d. mediaTypes s m = Some d \<longrightarrow>
           (\<exists>d'. mediaTypes s' m = Some d' \<and> AttributeDefinition d' = AttributeDefinition d)"
    and "\<forall>a ad. attributes s a = Some ad \<longrightarrow> attributes s' a = Some ad"
  shows "ToObject s' t = Some x"
proof -
  from assms(1) obtain ty where u: "underlying s t = Some ty"
    and x: "x = (case ty of Object ob \<Rightarrow> Some ob | _ \<Rightarrow> None)"
    by (auto simp: ToObject_def)
  from underlying_transfer[OF u, of s'] assms(2,3) have "underlying s' t = Some ty" by blast
  with x show ?thesis by (simp add: ToObject_def)
qed

text \<open>
  Claim C10. Inside a media type whose root type is an object and that has no view
  of that name yet, \<^verbatim>\<open>View\<close> with the name and no closure returns without a
  diagnostic and adds no view: every media type has the views and the links it had,
  and the design, the objects, the responses, the counter and the context stack are
  as they were. All that the call leaves behind is what lines 185 to 193 do: a map
  of views that was nil is now an empty map, and one attribute definition, to which
  nothing refers, has been allocated.
\<close>

theorem View_without_closure_on_object:
  assumes ctx: "current s = Some (MediaTypeDef mt)"
    and root: "root_type s mt = Some (Some (Object ob))"
    and new: "view_at s mt name = None"
    and fresh: "attributes s (nextAddr s) = None"
  shows "\<exists>s'. View env name [] s = Some s'
           \<and> Errors s' = Errors s
           \<and> (\<forall>m n. view_at s' m n = view_at s m n)
           \<and> (\<forall>m n. link_at s' m n = link_at s m n)
           \<and> Design s' = Design s \<and> objects s' = objects s \<and> ctxStack s' = ctxStack s
           \<and> responses s' = responses s \<and> mediaTypeCount s' = mediaTypeCount s
           \<and> nextAddr s' = Suc (nextAddr s)
           \<and> attributes s' = (attributes s)(nextAddr s \<mapsto> \<lparr>Type = None, AttrView = []\<rparr>)
           \<and> (\<exists>d. mediaTypes s mt = Some d
                  \<and> mediaTypes s' = (mediaTypes s)(mt \<mapsto>
                       d\<lparr>Views := Some (case Views d of
                                          None \<Rightarrow> Map.empty
                                        | Some vs \<Rightarrow> vs)\<rparr>))"
proof -
  from root obtain d a ad where d: "mediaTypes s mt = Some d"
    and a: "AttributeDefinition d = Some a" and ad: "attributes s a = Some ad"
    and ty: "Type ad = Some (Object ob)"
    by (auto simp: root_type_def split: bind_splits)
  from new d have new': "view_lookup d name = None" by (simp add: view_at_def)
  have target: "IsObject s (Some (Object ob)) = Some True
      \<or> IsObject s (Some (Object ob)) = Some False \<and> IsArray s (Some (Object ob)) = Some True"
    by (simp add: IsObject_def underlying_Object)
  define s2 where "s2 = view_entry mt s"
  note entry = view_entry_fields[OF d, folded s2_def]
  have v: "View env name [] s = view_inherit mt name (nextAddr s) s2"
    unfolding s2_def by (rule View_new_name_without_closure[OF ctx root target d new'])
  from ad fresh have "a \<noteq> nextAddr s" by auto
  with a ad ty entry have root2: "root_type s2 mt = Some (Some (Object ob))"
    by (simp add: root_type_def)
  then have "view_inherit mt name (nextAddr s) s2 = Some s2"
    by (simp add: view_inherit_def IsArray_def underlying_Object view_finish_def)
  moreover have "view_at s2 m n = view_at s m n" for m n
    using d entry by (simp add: view_at_def view_lookup_def split: option.splits)
  moreover have "link_at s2 m n = link_at s m n" for m n
    using d entry by (simp add: link_at_def link_lookup_def)
  ultimately show ?thesis using v d entry by simp
qed

theorem View_without_closure_on_object_witness:
  "current (inside (MediaTypeDef 3) sample_state) = Some (MediaTypeDef 3)
   \<and> root_type (inside (MediaTypeDef 3) sample_state) 3 = Some (Some (Object 1))
   \<and> view_at (inside (MediaTypeDef 3) sample_state) 3 ''tiny'' = None
   \<and> attributes (inside (MediaTypeDef 3) sample_state)
        (nextAddr (inside (MediaTypeDef 3) sample_state)) = None
   \<and> (\<exists>s'. View sample_env ''tiny'' [] (inside (MediaTypeDef 3) sample_state) = Some s'
          \<and> Errors s' = []
          \<and> view_at s' 3 ''tiny'' = None
          \<and> view_at s' 3 ''default''
               = Some \<lparr>ViewAttributeDefinition = 22, ViewName = ''default'', ViewParent = 3\<rparr>)"
proof -
  let ?s = "inside (MediaTypeDef 3) sample_state"
  have root: "root_type ?s 3 = Some (Some (Object 1))"
    by (simp add: root_type_def inside_def sample_state_def)
  have new: "view_at ?s 3 ''tiny'' = None"
    by (simp add: view_at_def view_lookup_def inside_def sample_state_def)
  have old: "view_at ?s 3 ''default''
               = Some \<lparr>ViewAttributeDefinition = 22, ViewName = ''default'', ViewParent = 3\<rparr>"
    by (simp add: view_at_def view_lookup_def inside_def sample_state_def)
  have fresh: "attributes ?s (nextAddr ?s) = None"
    by (simp add: inside_def sample_state_def)
  have e: "Errors ?s = []" by (simp add: inside_def sample_state_def)
  from View_without_closure_on_object [OF sample_ctx root new fresh, of sample_env]
  obtain s' where "View sample_env ''tiny'' [] ?s = Some s'" "Errors s' = []"
    "view_at s' 3 ''tiny'' = None"
    "view_at s' 3 ''default''
       = Some \<lparr>ViewAttributeDefinition = 22, ViewName = ''default'', ViewParent = 3\<rparr>"
    using new old e by auto
  with sample_ctx root new fresh show ?thesis by blast
qed

text \<open>
  Claim C5. Inside a collection whose element is a media type, \<^verbatim>\<open>View\<close> is called
  with a name that the collection does not define yet and with no closure. When the
  element type has no view of that name, the call reports \<open>UnknownView\<close> and the
  collection has no view of that name afterwards. When the element type has one,
  whose attribute definition and the element type resolve, the collection gets
  under that name a view with the same attribute definition and the same name; its
  parent is the collection, as line 230 sets it.
\<close>

theorem View_inherited_from_element:
  assumes ctx: "current s = Some (MediaTypeDef mt)"
    and root: "root_type s mt = Some (Some (Array (ArrayOfElem (Some elem))))"
    and elem: "attributes s elem = Some ead"
    and elem_type: "Type ead = Some (MediaTypeT pa)"
    and pa: "mediaTypes s pa = Some pd"
    and new: "view_at s mt name = None"
    and fresh: "attributes s (nextAddr s) = None"
  shows "(view_lookup pd name = None \<longrightarrow>
            (\<exists>s'. View env name [] s = Some s'
               \<and> Errors s' = Errors s @ [UnknownView name]
               \<and> view_at s' mt name = None))
       \<and> (\<forall>v vad ob po.
            view_lookup pd name = Some v
            \<and> attributes s (ViewAttributeDefinition v) = Some vad
            \<and> ToObject s (Type vad) = Some ob
            \<and> ToObject s (Some (MediaTypeT pa)) = Some po \<longrightarrow>
            (\<exists>s'. View env name [] s = Some s'
               \<and> view_at s' mt name =
                   Some \<lparr>ViewAttributeDefinition = ViewAttributeDefinition v,
                         ViewName = name, ViewParent = mt\<rparr>))"
proof -
  let ?arr = "Array (ArrayOfElem (Some elem))"
  from root obtain d a ad where d: "mediaTypes s mt = Some d"
    and a: "AttributeDefinition d = Some a" and ad: "attributes s a = Some ad"
    and ty: "Type ad = Some ?arr"
    by (auto simp: root_type_def split: bind_splits)
  from new d have new': "view_lookup d name = None" by (simp add: view_at_def)
  have target: "IsObject s (Some ?arr) = Some True
      \<or> IsObject s (Some ?arr) = Some False \<and> IsArray s (Some ?arr) = Some True"
    by (simp add: IsObject_def IsArray_def underlying_Array)
  define s2 where "s2 = view_entry mt s"
  have v: "View env name [] s = view_inherit mt name (nextAddr s) s2"
    unfolding s2_def by (rule View_new_name_without_closure[OF ctx root target d new'])
  have e: "Errors s2 = Errors s"
    and ats: "attributes s2 = (attributes s)(nextAddr s \<mapsto> \<lparr>Type = None, AttrView = []\<rparr>)"
    and mts: "mediaTypes s2 = (mediaTypes s)(mt \<mapsto>
                 d\<lparr>Views := Some (case Views d of None \<Rightarrow> Map.empty | Some vs \<Rightarrow> vs)\<rparr>)"
    unfolding s2_def by (simp_all add: view_entry_fields[OF d])
  let ?d2 = "d\<lparr>Views := Some (case Views d of None \<Rightarrow> Map.empty | Some vs \<Rightarrow> vs)\<rparr>"
  have keep: "attributes s2 x = Some y" if "attributes s x = Some y" for x y
    using that fresh ats by auto
  have d2: "mediaTypes s2 mt = Some ?d2" using mts by simp
  from a keep[OF ad] ty d2 have root2: "root_type s2 mt = Some (Some ?arr)"
    by (simp add: root_type_def)
  obtain pd2 where pd2: "mediaTypes s2 pa = Some pd2"
    and look: "view_lookup pd2 name = view_lookup pd name"
    using pa d mts by (cases "pa = mt") (auto simp: view_lookup_def split: option.splits)
  have step: "view_inherit mt name (nextAddr s) s2 =
                (case view_lookup pd name of
                   Some v \<Rightarrow> view_finish mt name (ViewAttributeDefinition v) True s2
                 | None \<Rightarrow> Some (ReportError (UnknownView name) s2))"
    using root2 keep[OF elem] elem_type pd2 look
    by (simp add: view_inherit_def IsArray_def ToArray_def underlying_Array)
  have missing: "\<exists>s'. View env name [] s = Some s'
               \<and> Errors s' = Errors s @ [UnknownView name]
               \<and> view_at s' mt name = None" if "view_lookup pd name = None"
    using that v step e d2 new'
    by (simp add: ReportError_def view_at_def view_lookup_def split: option.splits)
  have found: "\<exists>s'. View env name [] s = Some s'
               \<and> view_at s' mt name =
                   Some \<lparr>ViewAttributeDefinition = ViewAttributeDefinition v,
                         ViewName = name, ViewParent = mt\<rparr>"
    if f: "view_lookup pd name = Some v"
      and vad: "attributes s (ViewAttributeDefinition v) = Some vad"
      and ob: "ToObject s (Type vad) = Some ob"
      and po: "ToObject s (Some (MediaTypeT pa)) = Some po"
    for v vad ob po
  proof -
    have rel1: "\<forall>m d0. mediaTypes s m = Some d0 \<longrightarrow>
           (\<exists>d'. mediaTypes s2 m = Some d' \<and> AttributeDefinition d' = AttributeDefinition d0)"
      using d mts by auto
    have rel2: "\<forall>a ad. attributes s a = Some ad \<longrightarrow> attributes s2 a = Some ad"
      using keep by blast
    have ob2: "ToObject s2 (Type vad) = Some ob"
      by (rule ToObject_transfer[OF ob rel1 rel2])
    have po2: "ToObject s2 (Some (MediaTypeT pa)) = Some po"
      by (rule ToObject_transfer[OF po rel1 rel2])
    have parent: "parent_object s2 mt = Some po"
      using root2 keep[OF elem] elem_type po2
      by (simp add: parent_object_def ToObject_def ToArray_def underlying_Array)
    have views2: "Views ?d2 = Some (case Views d of None \<Rightarrow> Map.empty | Some vs \<Rightarrow> vs)"
      by simp
    from view_finish_eq[OF keep[OF vad] ob2 parent d2 views2, of name] v step f
    show ?thesis
      by (simp add: view_at_def view_lookup_def)
  qed
  from missing found show ?thesis by blast
qed

theorem View_inherited_from_element_witness:
  "current (inside (MediaTypeDef 16) sample_state) = Some (MediaTypeDef 16)
   \<and> root_type (inside (MediaTypeDef 16) sample_state) 16
        = Some (Some (Array (ArrayOfElem (Some 14))))
   \<and> (\<exists>ead pd v vad.
         attributes (inside (MediaTypeDef 16) sample_state) 14 = Some ead
       \<and> Type ead = Some (MediaTypeT 3)
       \<and> mediaTypes (inside (MediaTypeDef 16) sample_state) 3 = Some pd
       \<and> view_lookup pd ''tiny'' = None
       \<and> view_lookup pd ''default'' = Some v
       \<and> attributes (inside (MediaTypeDef 16) sample_state) (ViewAttributeDefinition v) = Some vad
       \<and> ToObject (inside (MediaTypeDef 16) sample_state) (Type vad) = Some (Some 23)
       \<and> ToObject (inside (MediaTypeDef 16) sample_state) (Some (MediaTypeT 3)) = Some (Some 1))
   \<and> view_at (inside (MediaTypeDef 16) sample_state) 16 ''tiny'' = None
   \<and> view_at (inside (MediaTypeDef 16) sample_state) 16 ''default'' = None
   \<and> attributes (inside (MediaTypeDef 16) sample_state)
        (nextAddr (inside (MediaTypeDef 16) sample_state)) = None
   \<and> (\<exists>s'. View sample_env ''tiny'' [] (inside (MediaTypeDef 16) sample_state) = Some s'
          \<and> Errors s' = [UnknownView ''tiny'']
          \<and> view_at s' 16 ''tiny'' = None)
   \<and> (\<exists>s'. View sample_env ''default'' [] (inside (MediaTypeDef 16) sample_state) = Some s'
          \<and> view_at s' 16 ''default''
               = Some \<lparr>ViewAttributeDefinition = 22, ViewName = ''default'', ViewParent = 16\<rparr>)"
proof -
  let ?s = "inside (MediaTypeDef 16) sample_state"
  let ?v = "\<lparr>ViewAttributeDefinition = 22, ViewName = ''default'', ViewParent = 3\<rparr>"
  have root: "root_type ?s 16 = Some (Some (Array (ArrayOfElem (Some 14))))"
    by (simp add: root_type_def inside_def sample_state_def)
  have elem: "attributes ?s 14 = Some \<lparr>Type = Some (MediaTypeT 3), AttrView = []\<rparr>"
    by (simp add: inside_def sample_state_def)
  have elem_type: "Type \<lparr>Type = Some (MediaTypeT 3), AttrView = []\<rparr> = Some (MediaTypeT 3)"
    by simp
  obtain pd where pd: "mediaTypes ?s 3 = Some pd"
    and tiny: "view_lookup pd ''tiny'' = None"
    and default: "view_lookup pd ''default'' = Some ?v"
    and pd_root: "AttributeDefinition pd = Some 2"
    by (simp add: view_lookup_def inside_def sample_state_def)
  have vad: "attributes ?s (ViewAttributeDefinition ?v) = Some \<lparr>Type = Some (Object 23), AttrView = []\<rparr>"
    by (simp add: inside_def sample_state_def)
  have ob: "ToObject ?s (Type \<lparr>Type = Some (Object 23), AttrView = []\<rparr>) = Some (Some 23)"
    by (simp add: ToObject_def underlying_Object)
  have a2: "attributes ?s 2 = Some \<lparr>Type = Some (Object 1), AttrView = []\<rparr>"
    by (simp add: inside_def sample_state_def)
  have po: "ToObject ?s (Some (MediaTypeT 3)) = Some (Some 1)"
    by (simp add: ToObject_def underlying_MediaTypeT[OF pd pd_root a2] underlying_Object)
  have new1: "view_at ?s 16 ''tiny'' = None"
    by (simp add: view_at_def view_lookup_def inside_def sample_state_def)
  have new2: "view_at ?s 16 ''default'' = None"
    by (simp add: view_at_def view_lookup_def inside_def sample_state_def)
  have fresh: "attributes ?s (nextAddr ?s) = None"
    by (simp add: inside_def sample_state_def)
  have e: "Errors ?s = []" by (simp add: inside_def sample_state_def)
  from View_inherited_from_element
        [OF sample_ctx root elem elem_type pd new1 fresh, of sample_env] tiny e
  have missing: "\<exists>s'. View sample_env ''tiny'' [] ?s = Some s'
          \<and> Errors s' = [UnknownView ''tiny''] \<and> view_at s' 16 ''tiny'' = None"
    by simp
  from View_inherited_from_element
        [OF sample_ctx root elem elem_type pd new2 fresh, of sample_env] default vad ob po
  have found: "\<exists>s'. View sample_env ''default'' [] ?s = Some s'
          \<and> view_at s' 16 ''default''
               = Some \<lparr>ViewAttributeDefinition = 22, ViewName = ''default'', ViewParent = 16\<rparr>"
    by fastforce
  from sample_ctx root elem pd tiny default vad ob po new1 new2 fresh missing found
  show ?thesis
    by (intro conjI exI[of _ "\<lparr>Type = Some (MediaTypeT 3), AttrView = []\<rparr>"]
          exI[of _ pd] exI[of _ ?v] exI[of _ "\<lparr>Type = Some (Object 23), AttrView = []\<rparr>"])
       simp_all
qed

end
